theory Spec2Isabelle
  imports Main
begin

section \<open>kubetunnel: the tunnel lifecycle of package internal and the session of package cmd\<close>

text \<open>
  The Go sources are embedded as pure functions over an explicit program state.
  Everything the program obtains from outside (the environment, the kubeconfig
  loader, the cluster API, the port-forward transport, OS signals) is a field of
  the record \<open>kube\<close>: a function from the arguments of the call and the current
  state of the outside world \<open>'w\<close> to the answer and the next world. The theorems
  hold for every such record, so for every behaviour of the cluster.

  Go values are modelled as follows: \<open>error\<close> is \<open>string option\<close> (\<open>None\<close> is
  \<open>nil\<close>, \<open>Some m\<close> an error whose \<open>Error()\<close> text is \<open>m\<close>); a \<open>func()\<close> value is
  \<open>stopFunc\<close> (\<open>NilFunc\<close> is \<open>nil\<close>); \<open>int\<close> is \<open>int\<close> (ports are only printed,
  never computed with); a map of the configuration is an association list read
  with \<open>map_of\<close>, the registry \<open>clientMap\<close> a partial function; a nil or empty slice
  is the empty list; a run-time panic is the left summand of the result. A
  function that returns a pair \<open>(value, error)\<close> whose value the caller stores
  (\<open>PortForward\<close>, \<open>startTunnel\<close>, \<open>Forward\<close>, \<open>GetPodNameByLabel\<close>) returns the pair; one
  whose value the caller uses only when the error is nil returns a sum.

  One call runs at a time: the goroutines that \<open>run\<close> starts for the sites are run
  one after the other, and the locks of the registry and of the collected stop
  functions have nothing to exclude.
\<close>

subsection \<open>Formatting helpers of the Go library\<close>

definition digitChar :: "nat \<Rightarrow> char" where
  "digitChar n = ''0123456789'' ! n"

fun digitsNat :: "nat \<Rightarrow> string" where
  "digitsNat n = (if n < 10 then [digitChar n] else digitsNat (n div 10) @ [digitChar (n mod 10)])"

declare digitsNat.simps [simp del]

text \<open>The verb \<open>%d\<close> of \<open>fmt\<close>.\<close>

definition fmt_d :: "int \<Rightarrow> string" where
  "fmt_d i = (if i < 0 then ''-'' @ digitsNat (nat (- i)) else digitsNat (nat i))"

text \<open>\<open>strings.Join(elems, sep)\<close>.\<close>

fun strings_Join :: "string list \<Rightarrow> string \<Rightarrow> string" where
  "strings_Join [] sep = []"
| "strings_Join [x] sep = x"
| "strings_Join (x # y # ys) sep = x @ sep @ strings_Join (y # ys) sep"

fun splitOn :: "char \<Rightarrow> string \<Rightarrow> string list" where
  "splitOn c [] = [[]]"
| "splitOn c (x # xs) =
     (if x = c then [] # splitOn c xs
      else (case splitOn c xs of [] \<Rightarrow> [[x]] | y # ys \<Rightarrow> (x # y) # ys))"

text \<open>
  \<open>filepath.Clean\<close> on a Unix path, after the rules of its documentation: runs of
  separators collapse, \<open>.\<close> elements vanish, an inner \<open>..\<close> removes the element
  before it, \<open>..\<close> at the start of a rooted path vanishes, the empty result is \<open>.\<close>.
\<close>

definition cleanStep :: "bool \<Rightarrow> string list \<Rightarrow> string \<Rightarrow> string list" where
  "cleanStep rooted out el =
     (if el = [] \<or> el = ''.'' then out
      else if el = ''..'' then
        (if out \<noteq> [] \<and> last out \<noteq> ''..'' then butlast out
         else if rooted then out
         else out @ [''..''])
      else out @ [el])"

definition filepath_Clean :: "string \<Rightarrow> string" where
  "filepath_Clean path =
     (case path of
        [] \<Rightarrow> ''.''
      | c # cs \<Rightarrow>
          (let rooted = (c = CHR ''/'');
               out = foldl (cleanStep rooted) [] (splitOn (CHR ''/'') path);
               s = (if rooted then ''/'' else []) @ strings_Join out ''/''
           in if s = [] then ''.'' else s))"

text \<open>\<open>filepath.Join\<close>: leading empty elements are skipped, the rest is joined and cleaned.\<close>

definition filepath_Join :: "string list \<Rightarrow> string" where
  "filepath_Join elem =
     (case dropWhile (\<lambda>e. e = []) elem of
        [] \<Rightarrow> []
      | es \<Rightarrow> filepath_Clean (strings_Join es ''/''))"

subsection \<open>Configuration (config.go)\<close>

record Service =
  DefaultPort :: int
  LocalPort :: int
  Endpoint :: string

text \<open>
  \<open>Services\<close> is a Go map that \<open>run\<close> compares with \<open>nil\<close>: \<open>None\<close> is the nil map.
  The order of an association list stands for the order in which \<open>range\<close> happens
  to visit the map.
\<close>

record Site =
  KubeContext :: string
  Porxy :: string
  Namespace :: string
  Services :: "(string \<times> Service) list option"

record Config =
  Sites :: "(string \<times> Site) list"

definition lookupService :: "Site \<Rightarrow> string \<Rightarrow> Service option" where
  "lookupService siteConfig service =
     (case Services siteConfig of None \<Rightarrow> None | Some m \<Rightarrow> map_of m service)"

subsection \<open>The outside world and the program state\<close>

text \<open>A \<open>*rest.Config\<close>, as the kubeconfig loader returns it: an opaque token.\<close>

datatype restConfig = RestConfig nat

text \<open>A \<open>*kubernetes.Clientset\<close>: the address of the object and the configuration it was built from.\<close>

datatype clientset = Clientset nat restConfig

text \<open>An item of \<open>pods.Items\<close>; the program reads its \<open>Name\<close> only.\<close>

datatype pod = Pod (Name: string)

text \<open>
  A value of type \<open>func()\<close>: \<open>nil\<close>, or the closure \<open>func() { close(stopChannel) }\<close>
  of \<open>PortForward\<close>, which captures the stop channel (the number of the channel).
\<close>

datatype stopFunc = NilFunc | CloseChan nat

datatype panic = Panic string

text \<open>
  What a run leaves behind, in order. The first four events record calls to the
  outside world that the sources do not log (the load of the kubeconfig at a path
  for a context, the listing of pods, the execution of a command in a pod, the
  start of the background task \<open>fw.ForwardPorts()\<close>); \<open>AwaitSignal\<close> records the
  receive from \<open>signalChan\<close>. The other events are the lines the program writes
  with \<open>log.Printf\<close>, \<open>log.Println\<close>, \<open>fmt.Printf\<close> and \<open>fmt.Fprintf(os.Stderr, ...)\<close>,
  one constructor per statement, with the arguments of the format. What the
  background task of a port-forward prints later is not part of the trace.
\<close>

datatype event =
    LoadConfig string string
  | ListPods string string
  | ExecStream string string "string list"
  | ForwardPorts string string "string list"
  | LogAttempt string int int string
  | LogTunnelStarted string int string int
  | StderrFailure string
  | LogPodFound string string
  | LogExecInit string
  | LogInitStdout string
  | StderrInitWarning string string
  | LogInitExecuted
  | LogExecRun string string
  | LogRunStdout string
  | StderrRunWarning string string string
  | LogRunExecuted string
  | LogStartPortForward int string string int
  | LogNoSites
  | LogSitesToForward "string list"
  | LogSiteNotFound string
  | LogSiteNoServicesDefined string
  | LogSiteNoServices string
  | LogSiteStart string "string list"
  | LogSiteEstablished nat string
  | LogSiteError string string
  | LogNoTunnels
  | PrintRule
  | PrintSummaryTitle
  | PrintSummaryLine string string int string int
  | LogActive nat
  | AwaitSignal
  | LogSignalReceived
  | LogStopping nat nat
  | LogAllDown

text \<open>
  The outside world. \<open>osGetenv\<close> is the environment at package initialisation;
  \<open>clientConfig path ctx\<close> is
  \<open>clientcmd.NewNonInteractiveDeferredLoadingClientConfig(...).ClientConfig()\<close> for the
  explicit path and the context; \<open>newForConfig\<close> says whether
  \<open>kubernetes.NewForConfig\<close> fails; \<open>podsList\<close> is \<open>Pods(namespace).List\<close> with the
  label selector; \<open>newSPDYExecutor\<close> and \<open>execStream\<close> are
  \<open>remotecommand.NewSPDYExecutor\<close> and \<open>exec.Stream\<close> (standard output, standard
  error, error) for the pod, namespace and command; \<open>roundTripperFor\<close> and
  \<open>newOnAddresses\<close> are \<open>spdy.RoundTripperFor\<close> and \<open>portforward.NewOnAddresses\<close>
  (addresses, ports); \<open>forwardPorts\<close> says after how many nanoseconds the forwarder
  signals readiness (\<open>None\<close>: never) and which case \<open>select\<close> picks should readiness
  and the timer fire together; \<open>awaitSignal\<close> is the receive of an interrupt or
  termination signal (\<open>None\<close>: no signal ever arrives). An error is the text of its
  \<open>Error()\<close>.
\<close>

record 'w kube =
  osGetenv :: "string \<Rightarrow> string"
  clientConfig :: "string \<Rightarrow> string \<Rightarrow> 'w \<Rightarrow> (string + restConfig) \<times> 'w"
  newForConfig :: "restConfig \<Rightarrow> 'w \<Rightarrow> string option \<times> 'w"
  podsList :: "clientset \<Rightarrow> string \<Rightarrow> string \<Rightarrow> 'w \<Rightarrow> (string + pod list) \<times> 'w"
  newSPDYExecutor :: "restConfig \<Rightarrow> clientset \<Rightarrow> string \<Rightarrow> string \<Rightarrow> string list \<Rightarrow> 'w \<Rightarrow> string option \<times> 'w"
  execStream :: "restConfig \<Rightarrow> clientset \<Rightarrow> string \<Rightarrow> string \<Rightarrow> string list \<Rightarrow> 'w \<Rightarrow> (string \<times> string \<times> string option) \<times> 'w"
  roundTripperFor :: "restConfig \<Rightarrow> 'w \<Rightarrow> string option \<times> 'w"
  newOnAddresses :: "restConfig \<Rightarrow> clientset \<Rightarrow> string \<Rightarrow> string \<Rightarrow> string list \<Rightarrow> string list \<Rightarrow> 'w \<Rightarrow> string option \<times> 'w"
  forwardPorts :: "restConfig \<Rightarrow> clientset \<Rightarrow> string \<Rightarrow> string \<Rightarrow> string list \<Rightarrow> 'w \<Rightarrow> (nat option \<times> bool) \<times> 'w"
  awaitSignal :: "'w \<Rightarrow> 'w option"

text \<open>
  The program state: the package variable \<open>clientMap\<close>, the next free address for a
  client set, the channels made so far (\<open>True\<close>: closed), the world, the trace. The
  mutexes do nothing in a sequential run and are left out.
\<close>

record 'w state =
  clientMap :: "string \<Rightarrow> clientset option"
  heapNext :: nat
  chans :: "bool list"
  world :: 'w
  trace :: "event list"

definition emit :: "event \<Rightarrow> 'w state \<Rightarrow> 'w state" where
  "emit e st = st\<lparr>trace := trace st @ [e]\<rparr>"

text \<open>A log line that is written only under a condition (\<open>if stdout != "" { log.Printf(...) }\<close>).\<close>

definition emitIf :: "bool \<Rightarrow> event \<Rightarrow> 'w state \<Rightarrow> 'w state" where
  "emitIf b e st = (if b then emit e st else st)"

text \<open>\<open>make(chan struct{}, 1)\<close>: a new channel, open; the flag says whether it is closed.\<close>

definition makeChan :: "'w state \<Rightarrow> nat \<times> 'w state" where
  "makeChan st = (length (chans st), st\<lparr>chans := chans st @ [False]\<rparr>)"

text \<open>\<open>close(ch)\<close>: Go panics when the channel is closed already.\<close>

definition closeChan :: "nat \<Rightarrow> 'w state \<Rightarrow> panic + 'w state" where
  "closeChan ch st =
     (if ch < length (chans st) then
        (if chans st ! ch then Inl (Panic ''close of closed channel'')
         else Inr (st\<lparr>chans := (chans st)[ch := True]\<rparr>))
      else Inl (Panic ''close of nil channel''))"

text \<open>Calling a \<open>func()\<close> value: the only closure the program builds is \<open>func() { close(stopChannel) }\<close>.\<close>

definition callStop :: "stopFunc \<Rightarrow> 'w state \<Rightarrow> panic + 'w state" where
  "callStop f st =
     (case f of
        NilFunc \<Rightarrow> Inl (Panic ''runtime error: invalid memory address or nil pointer dereference'')
      | CloseChan ch \<Rightarrow> closeChan ch st)"

subsection \<open>Cluster client registry (cluster.go)\<close>

text \<open>The package variable \<open>kubeConfig\<close>, initialised once from the environment.\<close>

definition kubeConfig :: "'w kube \<Rightarrow> string" where
  "kubeConfig k = filepath_Join [osGetenv k ''HOME'', ''.kube'', ''config'']"

definition getKubeRestConfig :: "'w kube \<Rightarrow> string \<Rightarrow> 'w state \<Rightarrow> (string + restConfig) \<times> 'w state" where
  "getKubeRestConfig k kubectx st =
     (case clientConfig k (kubeConfig k) kubectx (world st) of
        (r, w) \<Rightarrow> (r, st\<lparr>world := w, trace := trace st @ [LoadConfig (kubeConfig k) kubectx]\<rparr>))"

text \<open>\<open>kubernetes.NewForConfig\<close>: on success a newly allocated client set.\<close>

definition NewForConfig :: "'w kube \<Rightarrow> restConfig \<Rightarrow> 'w state \<Rightarrow> (string + clientset) \<times> 'w state" where
  "NewForConfig k restCfg st =
     (case newForConfig k restCfg (world st) of
        (Some err, w) \<Rightarrow> (Inl err, st\<lparr>world := w\<rparr>)
      | (None, w) \<Rightarrow> (Inr (Clientset (heapNext st) restCfg), st\<lparr>world := w, heapNext := Suc (heapNext st)\<rparr>))"

fun InitClients :: "'w kube \<Rightarrow> string list \<Rightarrow> 'w state \<Rightarrow> string option \<times> 'w state" where
  "InitClients k [] st = (None, st)"
| "InitClients k (ctx # contexts) st =
     (case getKubeRestConfig k ctx st of
        (Inl err, st1) \<Rightarrow>
          (Some (''failed to get client config for context '' @ ctx @ '': '' @ err), st1)
      | (Inr restCfg, st1) \<Rightarrow>
          (case NewForConfig k restCfg st1 of
             (Inl err, st2) \<Rightarrow>
               (Some (''failed to create client for context '' @ ctx @ '': '' @ err), st2)
           | (Inr clientset, st2) \<Rightarrow>
               InitClients k contexts (st2\<lparr>clientMap := (clientMap st2)(ctx \<mapsto> clientset)\<rparr>)))"

definition GetClient :: "string \<Rightarrow> 'w state \<Rightarrow> string + clientset" where
  "GetClient context st =
     (case clientMap st context of
        None \<Rightarrow> Inl (''client for context '' @ context @ '' not initialized'')
      | Some client \<Rightarrow> Inr client)"

subsection \<open>Pod locator, remote command executor, port-forward manager (cluster.go)\<close>

definition GetPodNameByLabel ::
  "'w kube \<Rightarrow> string \<Rightarrow> string \<Rightarrow> string \<Rightarrow> 'w state \<Rightarrow> (string \<times> string option) \<times> 'w state" where
  "GetPodNameByLabel k kubectx namespace labelSelector st =
     (case GetClient kubectx st of
        Inl err \<Rightarrow> (([], Some (''failed to get client: '' @ err)), st)
      | Inr client \<Rightarrow>
          (case podsList k client namespace labelSelector (world st) of
             (r, w) \<Rightarrow>
               (let st1 = st\<lparr>world := w, trace := trace st @ [ListPods namespace labelSelector]\<rparr>
                in case r of
                     Inl err \<Rightarrow> (([], Some err), st1)
                   | Inr items \<Rightarrow>
                       (case items of
                          [] \<Rightarrow>
                            (([], Some (''no pods found with label '' @ labelSelector @
                                        '' in namespace '' @ namespace)), st1)
                        | p # ps \<Rightarrow> ((Name p, None), st1)))))"

definition ExecToPod ::
  "'w kube \<Rightarrow> clientset \<Rightarrow> restConfig \<Rightarrow> string \<Rightarrow> string \<Rightarrow> string list \<Rightarrow> 'w state
     \<Rightarrow> (string \<times> string \<times> string option) \<times> 'w state" where
  "ExecToPod k client config podName namespace command st =
     (case newSPDYExecutor k config client podName namespace command (world st) of
        (Some err, w) \<Rightarrow> (([], [], Some (''failed to init SPDY executor: '' @ err)), st\<lparr>world := w\<rparr>)
      | (None, w) \<Rightarrow>
          (case execStream k config client podName namespace command w of
             (r, w1) \<Rightarrow> (r, st\<lparr>world := w1, trace := trace st @ [ExecStream podName namespace command]\<rparr>)))"

definition ExecPodCommand ::
  "'w kube \<Rightarrow> string \<Rightarrow> string \<Rightarrow> string \<Rightarrow> string list \<Rightarrow> 'w state
     \<Rightarrow> (string \<times> string \<times> string option) \<times> 'w state" where
  "ExecPodCommand k kubectx namespace podName command st =
     (case GetClient kubectx st of
        Inl err \<Rightarrow> (([], [], Some (''failed to get client: '' @ err)), st)
      | Inr client \<Rightarrow>
          (case getKubeRestConfig k kubectx st of
             (Inl err, st1) \<Rightarrow> (([], [], Some (''failed to get config: '' @ err)), st1)
           | (Inr config, st1) \<Rightarrow> ExecToPod k client config podName namespace command st1))"

text \<open>\<open>time.Second\<close>, in nanoseconds.\<close>

definition Second :: nat where
  "Second = 1000000000"

datatype selected = ReadyCase | TimeoutCase

text \<open>
  The \<open>select\<close> of \<open>PortForward\<close> over \<open>readyChannel\<close> and \<open>time.After(d)\<close>. The
  transport says when the forwarder signals readiness (\<open>None\<close>: never), counted in
  nanoseconds from the start of the wait; the earlier of the two cases is taken, and
  when both are ready at once Go picks one of them (\<open>tie\<close>).
\<close>

definition selectReady :: "nat option \<Rightarrow> bool \<Rightarrow> nat \<Rightarrow> selected" where
  "selectReady readyAt tie d =
     (case readyAt of
        None \<Rightarrow> TimeoutCase
      | Some t \<Rightarrow> if t < d then ReadyCase else if t = d \<and> tie then ReadyCase else TimeoutCase)"

text \<open>
  \<open>PortForward\<close>. The two channels are made before the forwarder is built, as in
  the source; the background task is started by \<open>forwardPorts\<close>, whose answer decides
  the \<open>select\<close>.
\<close>

definition PortForward ::
  "'w kube \<Rightarrow> string \<Rightarrow> string \<Rightarrow> string \<Rightarrow> int \<Rightarrow> int \<Rightarrow> 'w state
     \<Rightarrow> panic + ((stopFunc \<times> string option) \<times> 'w state)" where
  "PortForward k kubectx namespace podName localPort remotePort st =
     (case GetClient kubectx st of
        Inl err \<Rightarrow> Inr ((NilFunc, Some (''failed to get client: '' @ err)), st)
      | Inr client \<Rightarrow>
          (case getKubeRestConfig k kubectx st of
             (Inl err, st1) \<Rightarrow> Inr ((NilFunc, Some (''failed to get config: '' @ err)), st1)
           | (Inr config, st1) \<Rightarrow>
               (case roundTripperFor k config (world st1) of
                  (Some err, w2) \<Rightarrow> Inr ((NilFunc, Some err), st1\<lparr>world := w2\<rparr>)
                | (None, w2) \<Rightarrow>
                    (let ports = [fmt_d localPort @ '':'' @ fmt_d remotePort] in
                     case makeChan (st1\<lparr>world := w2\<rparr>) of
                       (readyChannel, st3) \<Rightarrow>
                         (case makeChan st3 of
                            (stopChannel, st4) \<Rightarrow>
                              (case newOnAddresses k config client namespace podName
                                      [''localhost''] ports (world st4) of
                                 (Some err, w5) \<Rightarrow> Inr ((NilFunc, Some err), st4\<lparr>world := w5\<rparr>)
                               | (None, w5) \<Rightarrow>
                                   (case forwardPorts k config client namespace podName ports w5 of
                                      ((readyAt, tie), w6) \<Rightarrow>
                                        (let st6 = st4\<lparr>world := w6,
                                               trace := trace st4 @ [ForwardPorts namespace podName ports]\<rparr>
                                         in case selectReady readyAt tie (10 * Second) of
                                              ReadyCase \<Rightarrow> Inr ((CloseChan stopChannel, None), st6)
                                            | TimeoutCase \<Rightarrow>
                                                (case closeChan stopChannel st6 of
                                                   Inl p \<Rightarrow> Inl p
                                                 | Inr st7 \<Rightarrow>
                                                     Inr ((NilFunc,
                                                           Some ''timed out waiting for port forward to be ready''),
                                                          st7))))))))))"

subsection \<open>Tunnel bootstrapper (forward.go)\<close>

definition unlinesNL :: "string list \<Rightarrow> string" where
  "unlinesNL ls = concat (map (\<lambda>l. l @ [CHR 0x0A]) ls)"

definition initScript :: "int \<Rightarrow> string \<Rightarrow> string" where
  "initScript remotePort targetAddressInPod = CHR 0x0A # unlinesNL [
      ''#!/bin/sh'',
      ''set -e'',
      ''echo \"Ensuring socat and lsof are installed...\"'',
      ''if ! command -v socat >/dev/null 2>&1; then'',
      ''  echo \"socat not found, attempting to install...\"'',
      ''  if command -v apt-get >/dev/null 2>&1; then'',
      ''    apt-get update && apt-get install -y socat'',
      ''  elif command -v yum >/dev/null 2>&1; then'',
      ''    yum install -y socat'',
      ''  elif command -v apk >/dev/null 2>&1; then'',
      ''    apk add --no-cache socat'',
      ''  else'',
      ''    echo \"Error: Neither apt-get, yum, nor apk found. Cannot install socat.\" >&2'',
      ''    exit 1'',
      ''  fi'',
      ''  echo \"socat installed.\"'',
      ''else'',
      ''  echo \"socat is already installed.\"'',
      ''fi'',
      [],
      ''if ! command -v lsof >/dev/null 2>&1; then'',
      ''  echo \"lsof not found, attempting to install...\"'',
      ''  if command -v apt-get >/dev/null 2>&1; then'',
      ''    apt-get update && apt-get install -y lsof'',
      ''  elif command -v yum >/dev/null 2>&1; then'',
      ''    yum install -y lsof'',
      ''  elif command -v apk >/dev/null 2>&1; then'',
      ''    apk add --no-cache lsof'',
      ''  else'',
      ''    echo \"Warning: Neither apt-get, yum, nor apk found. Cannot install lsof. socat check might be less reliable.\" >&2'',
      ''  fi'',
      ''  echo \"lsof installed or package manager not found.\"'',
      ''else'',
      ''  echo \"lsof is already installed.\"'',
      ''fi'',
      [],
      ''echo \"Creating /tmp/run_socat_'' @ fmt_d remotePort @ ''.sh...\"'',
      ''cat <<EOF > /tmp/run_socat_'' @ fmt_d remotePort @ ''.sh'',
      ''#!/bin/sh'',
      ''# Check if socat is already listening on the port to avoid multiple instances'',
      ''# Using -t for terse output, -i for IPv4/IPv6, -P for no port name resolution, -n for no hostname resolution'',
      ''# and filtering for LISTEN state.'',
      ''if command -v lsof >/dev/null 2>&1 && lsof -ti:'' @ fmt_d remotePort @ '' -sTCP:LISTEN >/dev/null; then'',
      ''  echo \"socat (or another process) is already listening on port '' @ fmt_d remotePort @ ''. Skipping socat startup.\"'',
      ''else'',
      ''  echo \"Starting socat to listen on port '' @ fmt_d remotePort @ '' and forward to '' @ targetAddressInPod @ '':'' @ fmt_d remotePort @ ''\"'',
      ''  nohup socat TCP-LISTEN:'' @ fmt_d remotePort @ '',fork,reuseaddr TCP:'' @ targetAddressInPod @ '':'' @ fmt_d remotePort @ '' >/tmp/socat_'' @ fmt_d remotePort @ ''.log 2>&1 &'',
      ''  echo \"socat process launched in background.\"'',
      ''fi'',
      ''EOF'',
      ''chmod +x /tmp/run_socat_'' @ fmt_d remotePort @ ''.sh'',
      ''echo \"Init script finished.\"'']"

definition startTunnel ::
  "'w kube \<Rightarrow> Site \<Rightarrow> int \<Rightarrow> int \<Rightarrow> string \<Rightarrow> 'w state
     \<Rightarrow> panic + ((stopFunc \<times> string option) \<times> 'w state)" where
  "startTunnel k siteConfig localPort remotePort targetAddressInPod st =
     (let context = KubeContext siteConfig;
          labelSelector = Porxy siteConfig;
          namespace = Namespace siteConfig
      in case GetPodNameByLabel k (KubeContext siteConfig) namespace labelSelector st of
           ((podName, Some err), st1) \<Rightarrow>
             Inr ((NilFunc, Some (''failed to get pod name in namespace '' @ [CHR 0x27] @ namespace @
                    [CHR 0x27] @ '' with selector '' @ [CHR 0x27] @ labelSelector @ [CHR 0x27] @
                    '': '' @ err)), st1)
         | ((podName, None), st1) \<Rightarrow>
             (let st2 = emit (LogExecInit podName) (emit (LogPodFound podName context) st1) in
              case ExecPodCommand k context namespace podName
                     [''/bin/sh'', ''-c'', initScript remotePort targetAddressInPod] st2 of
                ((stdout, stderr, Some err), st3) \<Rightarrow>
                  Inr ((NilFunc, Some (''failed to exec init script in pod '' @ podName @ '': '' @ err @
                         [CHR 0x0A] @ ''stdout: '' @ stdout @ [CHR 0x0A] @ ''stderr: '' @ stderr)), st3)
              | ((stdout, stderr, None), st3) \<Rightarrow>
                  (let st4 = emitIf (stdout \<noteq> []) (LogInitStdout stdout) st3;
                       st5 = emitIf (stderr \<noteq> []) (StderrInitWarning podName stderr) st4;
                       st6 = emit LogInitExecuted st5;
                       runSocatScriptName = ''/tmp/run_socat_'' @ fmt_d remotePort @ ''.sh'';
                       st7 = emit (LogExecRun runSocatScriptName podName) st6
                   in case ExecPodCommand k context namespace podName [runSocatScriptName] st7 of
                        ((stdout, stderr, Some err), st8) \<Rightarrow>
                          Inr ((NilFunc, Some (''failed to start socat via '' @ runSocatScriptName @
                                 '' in pod '' @ podName @ '': '' @ err @ [CHR 0x0A] @
                                 ''stdout: '' @ stdout @ [CHR 0x0A] @ ''stderr: '' @ stderr)), st8)
                      | ((stdout, stderr, None), st8) \<Rightarrow>
                          (let st9 = emitIf (stdout \<noteq> []) (LogRunStdout stdout) st8;
                               st10 = emitIf (stderr \<noteq> [])
                                        (StderrRunWarning runSocatScriptName podName stderr) st9;
                               st11 = emit (LogRunExecuted podName) st10;
                               st12 = emit (LogStartPortForward localPort podName namespace remotePort) st11
                           in case PortForward k context namespace podName localPort remotePort st12 of
                                Inl p \<Rightarrow> Inl p
                              | Inr ((stopPortForwardFunc, Some err), st13) \<Rightarrow>
                                  Inr ((NilFunc, Some (''failed to start port-forward from localhost:'' @
                                         fmt_d localPort @ '' to pod '' @ podName @ '' remote port '' @
                                         fmt_d remotePort @ '': '' @ err)), st13)
                              | Inr ((stopPortForwardFunc, None), st13) \<Rightarrow>
                                  Inr ((stopPortForwardFunc, None), st13)))))"

subsection \<open>Site-level orchestrator (forward.go)\<close>

text \<open>
  The body of the loop of \<open>Forward\<close> for one service: what the iteration appends,
  an error (\<open>Inl\<close>, appended to \<open>errs\<close>) or a stop function (\<open>Inr\<close>, appended to
  \<open>successfulStopFuncs\<close>).
\<close>

definition forwardService ::
  "'w kube \<Rightarrow> Site \<Rightarrow> string \<Rightarrow> string \<Rightarrow> 'w state \<Rightarrow> panic + ((string + stopFunc) \<times> 'w state)" where
  "forwardService k siteConfig site service st =
     (case lookupService siteConfig service of
        None \<Rightarrow>
          Inr (Inl (''service '' @ service @ '' not found in site '' @ site @ '' configuration''), st)
      | Some serviceConfig \<Rightarrow>
          (let localPort = LocalPort serviceConfig;
               remotePort = DefaultPort serviceConfig;
               address = Endpoint serviceConfig;
               st1 = emit (LogAttempt service localPort remotePort address) st
           in case startTunnel k siteConfig localPort remotePort address st1 of
                Inl p \<Rightarrow> Inl p
              | Inr ((stopFunc, Some err), st2) \<Rightarrow>
                  Inr (Inl (''failed to start tunnel for service '' @ service @ '': '' @ err), st2)
              | Inr ((stopFunc, None), st2) \<Rightarrow>
                  Inr (Inr stopFunc, emit (LogTunnelStarted service localPort address remotePort) st2)))"

fun forwardLoop ::
  "'w kube \<Rightarrow> Site \<Rightarrow> string \<Rightarrow> string list \<Rightarrow> string list \<Rightarrow> stopFunc list \<Rightarrow> 'w state
     \<Rightarrow> panic + ((string list \<times> stopFunc list) \<times> 'w state)" where
  "forwardLoop k siteConfig site [] errs successfulStopFuncs st =
     Inr ((errs, successfulStopFuncs), st)"
| "forwardLoop k siteConfig site (service # services) errs successfulStopFuncs st =
     (case forwardService k siteConfig site service st of
        Inl p \<Rightarrow> Inl p
      | Inr (Inl e, st1) \<Rightarrow>
          forwardLoop k siteConfig site services (errs @ [e]) successfulStopFuncs st1
      | Inr (Inr stopFunc, st1) \<Rightarrow>
          forwardLoop k siteConfig site services errs (successfulStopFuncs @ [stopFunc]) st1)"

definition aggregateError :: "string list \<Rightarrow> nat \<Rightarrow> string" where
  "aggregateError errorMessages nservices =
     ''some services failed to start tunnels ('' @ fmt_d (int (length errorMessages)) @ ''/'' @
     fmt_d (int nservices) @ ''): '' @ strings_Join errorMessages ''; ''"

definition Forward ::
  "'w kube \<Rightarrow> Config \<Rightarrow> string \<Rightarrow> string list \<Rightarrow> 'w state
     \<Rightarrow> panic + ((stopFunc list \<times> string option) \<times> 'w state)" where
  "Forward k cfg site services st =
     (case map_of (Sites cfg) site of
        None \<Rightarrow> Inr (([], Some (''site '' @ site @ '' not found in configuration'')), st)
      | Some siteConfig \<Rightarrow>
          if KubeContext siteConfig = [] then
            Inr (([], Some (''kubeContext not found for site '' @ site)), st)
          else
            (case InitClients k [KubeContext siteConfig] st of
               (Some err, st1) \<Rightarrow>
                 Inr (([], Some (''failed to initialize clients for context '' @
                                 KubeContext siteConfig @ '': '' @ err)), st1)
             | (None, st1) \<Rightarrow>
                 (case forwardLoop k siteConfig site services [] [] st1 of
                    Inl p \<Rightarrow> Inl p
                  | Inr ((errs, successfulStopFuncs), st2) \<Rightarrow>
                      if length errs > 0 then
                        Inr ((successfulStopFuncs, Some (aggregateError errs (length services))),
                             st2\<lparr>trace := trace st2 @ map StderrFailure errs\<rparr>)
                      else Inr ((successfulStopFuncs, None), st2))))"

text \<open>
  The attempts of a call of \<open>Forward\<close>, as the site-level contract describes them:
  one entry per requested service in the order of the request, each attempt
  starting in the state the one before it left. A service that the site does not
  configure is a failure with the cause \<open>service <name> not found in site <site>
  configuration\<close>; for a configured service the tunnel is bootstrapped by
  \<open>startTunnel\<close> with the service's local port, remote port and address, and the
  attempt is a failure with the cause \<open>failed to start tunnel for service <name>:
  <error>\<close> when \<open>startTunnel\<close> returns an error, and otherwise a success with the
  stop function that \<open>startTunnel\<close> returned.
\<close>

fun attempts ::
  "'w kube \<Rightarrow> Site \<Rightarrow> string \<Rightarrow> string list \<Rightarrow> 'w state \<Rightarrow> (string \<times> (string + stopFunc)) list" where
  "attempts k siteConfig site [] st = []"
| "attempts k siteConfig site (service # services) st =
     (case lookupService siteConfig service of
        None \<Rightarrow>
          (service, Inl (''service '' @ service @ '' not found in site '' @ site @ '' configuration''))
            # attempts k siteConfig site services st
      | Some c \<Rightarrow>
          (case startTunnel k siteConfig (LocalPort c) (DefaultPort c) (Endpoint c)
                  (emit (LogAttempt service (LocalPort c) (DefaultPort c) (Endpoint c)) st) of
             Inl p \<Rightarrow> []
           | Inr ((h, Some err), st1) \<Rightarrow>
               (service, Inl (''failed to start tunnel for service '' @ service @ '': '' @ err))
                 # attempts k siteConfig site services st1
           | Inr ((h, None), st1) \<Rightarrow>
               (service, Inr h)
                 # attempts k siteConfig site services
                     (emit (LogTunnelStarted service (LocalPort c) (Endpoint c) (DefaultPort c)) st1)))"

fun failuresOf :: "(string \<times> (string + stopFunc)) list \<Rightarrow> string list" where
  "failuresOf [] = []"
| "failuresOf ((s, Inl e) # outs) = e # failuresOf outs"
| "failuresOf ((s, Inr f) # outs) = failuresOf outs"

fun handlesOf :: "(string \<times> (string + stopFunc)) list \<Rightarrow> stopFunc list" where
  "handlesOf [] = []"
| "handlesOf ((s, Inl e) # outs) = handlesOf outs"
| "handlesOf ((s, Inr f) # outs) = f # handlesOf outs"

subsection \<open>Session-level orchestrator (cmd, function run)\<close>

text \<open>
  The body of the goroutine that \<open>run\<close> starts for one site. The model runs the
  goroutines one after the other, in the order in which they are started.
\<close>

definition siteTask ::
  "'w kube \<Rightarrow> Config \<Rightarrow> string \<Rightarrow> string list \<Rightarrow> stopFunc list \<Rightarrow> 'w state
     \<Rightarrow> panic + (stopFunc list \<times> 'w state)" where
  "siteTask k cfg currentSiteName servicesToForward allActiveStopFuncs st =
     (case Forward k cfg currentSiteName servicesToForward
             (emit (LogSiteStart currentSiteName servicesToForward) st) of
        Inl p \<Rightarrow> Inl p
      | Inr ((stopFuncsForSite, err), st1) \<Rightarrow>
          (let all1 = (if length stopFuncsForSite > 0 then allActiveStopFuncs @ stopFuncsForSite
                       else allActiveStopFuncs);
               st2 = (if length stopFuncsForSite > 0
                      then emit (LogSiteEstablished (length stopFuncsForSite) currentSiteName) st1
                      else st1);
               st3 = (case err of
                        Some e \<Rightarrow> emit (LogSiteError currentSiteName e) st2
                      | None \<Rightarrow> st2)
           in Inr (all1, st3)))"

fun fanOut ::
  "'w kube \<Rightarrow> Config \<Rightarrow> string list \<Rightarrow> string list \<Rightarrow> stopFunc list \<Rightarrow> 'w state
     \<Rightarrow> panic + (stopFunc list \<times> 'w state)" where
  "fanOut k cfg servicesToUse [] allActiveStopFuncs st = Inr (allActiveStopFuncs, st)"
| "fanOut k cfg servicesToUse (siteName # sitesToUse) allActiveStopFuncs st =
     (case map_of (Sites cfg) siteName of
        None \<Rightarrow>
          fanOut k cfg servicesToUse sitesToUse allActiveStopFuncs (emit (LogSiteNotFound siteName) st)
      | Some site \<Rightarrow>
          if length servicesToUse = 0 then
            (case Services site of
               None \<Rightarrow>
                 fanOut k cfg servicesToUse sitesToUse allActiveStopFuncs
                   (emit (LogSiteNoServicesDefined siteName) st)
             | Some m \<Rightarrow>
                 (let actualServices = servicesToUse @ map fst m in
                  if length actualServices = 0 then
                    fanOut k cfg servicesToUse sitesToUse allActiveStopFuncs
                      (emit (LogSiteNoServices siteName) st)
                  else
                    (case siteTask k cfg siteName actualServices allActiveStopFuncs st of
                       Inl p \<Rightarrow> Inl p
                     | Inr (all1, st1) \<Rightarrow> fanOut k cfg servicesToUse sitesToUse all1 st1)))
          else
            (case siteTask k cfg siteName servicesToUse allActiveStopFuncs st of
               Inl p \<Rightarrow> Inl p
             | Inr (all1, st1) \<Rightarrow> fanOut k cfg servicesToUse sitesToUse all1 st1))"

definition summaryLines :: "Config \<Rightarrow> event list" where
  "summaryLines cfg =
     concat (map (\<lambda>(siteName, site).
                    map (\<lambda>(serviceName, service).
                           PrintSummaryLine siteName serviceName (LocalPort service)
                             (Endpoint service) (DefaultPort service))
                        (case Services site of None \<Rightarrow> [] | Some m \<Rightarrow> m))
                 (Sites cfg))"

fun stopAll :: "stopFunc list \<Rightarrow> nat \<Rightarrow> nat \<Rightarrow> 'w state \<Rightarrow> panic + 'w state" where
  "stopAll [] i activeTunnelCount st = Inr st"
| "stopAll (stopFunc # fs) i activeTunnelCount st =
     (if stopFunc \<noteq> NilFunc then
        (case callStop stopFunc (emit (LogStopping (i + 1) activeTunnelCount) st) of
           Inl p \<Rightarrow> Inl p
         | Inr st1 \<Rightarrow> stopAll fs (i + 1) activeTunnelCount st1)
      else stopAll fs (i + 1) activeTunnelCount st)"

text \<open>
  What \<open>run\<close> does after \<open>wg.Wait()\<close>. The result \<open>None\<close> says that the receive from
  \<open>signalChan\<close> never returns; the event \<open>AwaitSignal\<close> marks that receive.
\<close>

definition afterBarrier ::
  "'w kube \<Rightarrow> Config \<Rightarrow> stopFunc list \<Rightarrow> 'w state \<Rightarrow> (panic + 'w state) option" where
  "afterBarrier k cfg allActiveStopFuncs st =
     (let activeTunnelCount = length allActiveStopFuncs in
      if activeTunnelCount = 0 then Some (Inr (emit LogNoTunnels st))
      else
        (let st1 = st\<lparr>trace := trace st @ [PrintRule, PrintSummaryTitle] @ summaryLines cfg @
                                 [PrintRule, LogActive activeTunnelCount, AwaitSignal]\<rparr>
         in case awaitSignal k (world st1) of
              None \<Rightarrow> None
            | Some w \<Rightarrow>
                (case stopAll allActiveStopFuncs 0 activeTunnelCount
                        (emit LogSignalReceived (st1\<lparr>world := w\<rparr>)) of
                   Inl p \<Rightarrow> Some (Inl p)
                 | Inr st2 \<Rightarrow> Some (Inr (emit LogAllDown st2)))))"

definition run ::
  "'w kube \<Rightarrow> Config \<Rightarrow> string list \<Rightarrow> string list \<Rightarrow> 'w state \<Rightarrow> (panic + 'w state) option" where
  "run k cfg servicesToUse args st =
     (let sitesToUse = (if length args = 0 then args @ map fst (Sites cfg) else args) in
      if length args = 0 \<and> length sitesToUse = 0 then Some (Inr (emit LogNoSites st))
      else
        (case fanOut k cfg servicesToUse sitesToUse [] (emit (LogSitesToForward sitesToUse) st) of
           Inl p \<Rightarrow> Some (Inl p)
         | Inr (allActiveStopFuncs, st1) \<Rightarrow> afterBarrier k cfg allActiveStopFuncs st1))"

subsection \<open>Observations on the registry and on the trace\<close>

text \<open>
  A caller's use of the registry: a sequence of \<open>InitClients\<close> and \<open>GetClient\<close> calls,
  whatever they return (\<open>GetClient\<close> reads the registry under the read lock and
  leaves the state as it is).
\<close>

datatype registryOp = OpInitClients "string list" | OpGetClient string

fun applyOp :: "'w kube \<Rightarrow> registryOp \<Rightarrow> 'w state \<Rightarrow> 'w state" where
  "applyOp k (OpInitClients contexts) st = snd (InitClients k contexts st)"
| "applyOp k (OpGetClient context) st =
     (case GetClient context st of Inl err \<Rightarrow> st | Inr client \<Rightarrow> st)"

fun runOps :: "'w kube \<Rightarrow> registryOp list \<Rightarrow> 'w state \<Rightarrow> 'w state" where
  "runOps k [] st = st"
| "runOps k (x # ops) st = runOps k ops (applyOp k x st)"

fun initTargets :: "registryOp list \<Rightarrow> string set" where
  "initTargets [] = {}"
| "initTargets (OpInitClients contexts # ops) = set contexts \<union> initTargets ops"
| "initTargets (OpGetClient context # ops) = initTargets ops"

text \<open>
  The world after the clients of the contexts have been built one after the other,
  read off the world's answers alone: for each context the kubeconfig loads and
  the client set is made. \<open>None\<close> when one of the answers is an error.
\<close>

fun builtWorld :: "'w kube \<Rightarrow> string list \<Rightarrow> 'w \<Rightarrow> 'w option" where
  "builtWorld k [] w = Some w"
| "builtWorld k (ctx # contexts) w =
     (case clientConfig k (kubeConfig k) ctx w of
        (Inl err, w1) \<Rightarrow> None
      | (Inr restCfg, w1) \<Rightarrow>
          (case newForConfig k restCfg w1 of
             (Some err, w2) \<Rightarrow> None
           | (None, w2) \<Rightarrow> builtWorld k contexts w2))"

text \<open>The file paths from which the events of a trace loaded cluster credentials.\<close>

fun loadPaths :: "event list \<Rightarrow> string list" where
  "loadPaths [] = []"
| "loadPaths (LoadConfig path kubectx # es) = path # loadPaths es"
| "loadPaths (e # es) = loadPaths es"

text \<open>Every load of credentials recorded in the trace of the state read a file of \<open>S\<close>.\<close>

definition loadsWithin :: "string set \<Rightarrow> 'w state \<Rightarrow> bool" where
  "loadsWithin S st = (set (loadPaths (trace st)) \<subseteq> S)"

subsection \<open>Concrete environments for the examples\<close>

definition st0 :: "nat state" where
  "st0 = \<lparr>clientMap = Map.empty, heapNext = 0, chans = [], world = 0, trace = []\<rparr>"

text \<open>
  A cluster in which every call succeeds, except that the context \<open>bad\<close> is not in
  the kubeconfig, the selector \<open>app=none\<close> matches no pod, the local port 70000 is
  refused when the forwarder is built, the forwarder for local port 101 never
  becomes ready, and no signal ever arrives. The world counts the
  calls made; the kubeconfig is read afresh at every load (\<open>RestConfig w\<close>).
\<close>

definition kDemo :: "nat kube" where
  "kDemo = \<lparr>
     osGetenv = (\<lambda>v. if v = ''HOME'' then ''/home/u''
                     else if v = ''KUBECONFIG'' then ''/tmp/alt'' else []),
     clientConfig = (\<lambda>path ctx w.
        (if path = ''/home/u/.kube/config'' then
           (if ctx = ''bad'' then Inl ''context not found'' else Inr (RestConfig w))
         else Inl ''no such file'', Suc w)),
     newForConfig = (\<lambda>c w. (None, Suc w)),
     podsList = (\<lambda>cl ns sel w.
        (if sel = ''app=none'' then Inr [] else Inr [Pod ''proxy-0'', Pod ''proxy-1''], Suc w)),
     newSPDYExecutor = (\<lambda>c cl p ns cmd w. (None, w)),
     execStream = (\<lambda>c cl p ns cmd w. ((''done'', [], None), Suc w)),
     roundTripperFor = (\<lambda>c w. (None, w)),
     newOnAddresses = (\<lambda>c cl ns p addrs ports w.
        (if ports = [''70000:200''] then Some ''error parsing local port'' else None, w)),
     forwardPorts = (\<lambda>c cl ns p ports w.
        ((if ports = [''101:201''] then None else Some 2000000, False), Suc w)),
     awaitSignal = (\<lambda>w. None)\<rparr>"

definition siteDemo :: Site where
  "siteDemo = \<lparr>KubeContext = ''ctx1'', Porxy = ''app=proxy'', Namespace = ''ns1'',
     Services = Some [(''a'', \<lparr>DefaultPort = 200, LocalPort = 100, Endpoint = ''db.example''\<rparr>),
                      (''b'', \<lparr>DefaultPort = 201, LocalPort = 101, Endpoint = ''cache.example''\<rparr>)]\<rparr>"

definition cfgDemo :: Config where
  "cfgDemo = \<lparr>Sites = [(''s1'', siteDemo),
                        (''s2'', siteDemo\<lparr>KubeContext := []\<rparr>),
                        (''s3'', siteDemo\<lparr>KubeContext := ''bad''\<rparr>)]\<rparr>"

text \<open>The state after the clients of \<open>ctx1\<close> are initialised in \<open>st0\<close>.\<close>

definition stInitDemo :: "nat state" where
  "stInitDemo = snd (InitClients kDemo [''ctx1''] st0)"

text \<open>The state after a port-forward to local port 100 has become ready in \<open>stInitDemo\<close>.\<close>

definition stReadyDemo :: "nat state" where
  "stReadyDemo =
     (case PortForward kDemo ''ctx1'' ''ns1'' ''proxy-0'' 100 200 stInitDemo of
        Inl p \<Rightarrow> stInitDemo
      | Inr (r, st) \<Rightarrow> st)"

text \<open>
  The state at the barrier of a session over the sites \<open>s2\<close>, \<open>nosuch\<close> and \<open>s1\<close>
  with the service filter \<open>b\<close>.
\<close>

definition stBarrierDemo :: "nat state" where
  "stBarrierDemo =
     (case fanOut kDemo cfgDemo [''b''] [''s2'', ''nosuch'', ''s1''] []
             (emit (LogSitesToForward [''s2'', ''nosuch'', ''s1'']) st0) of
        Inl p \<Rightarrow> st0
      | Inr (fs, st) \<Rightarrow> st)"


section \<open>Properties\<close>

subsection \<open>Evaluation on the example environment\<close>

lemmas evals =
  st0_def kDemo_def siteDemo_def cfgDemo_def GetClient_def getKubeRestConfig_def NewForConfig_def
  kubeConfig_def filepath_Join_def filepath_Clean_def cleanStep_def makeChan_def closeChan_def
  selectReady_def Second_def emit_def emitIf_def GetPodNameByLabel_def ExecToPod_def
  ExecPodCommand_def PortForward_def startTunnel_def forwardService_def lookupService_def
  Forward_def aggregateError_def fmt_d_def digitsNat.simps digitChar_def Let_def

subsection \<open>No step of the tunnel pipeline panics; a handle comes without an error\<close>

lemma PortForward_shape:
  "\<exists>h e st'. PortForward k c ns p lp rp st = Inr ((h, e), st') \<and>
      (e = None \<longrightarrow> h \<noteq> NilFunc) \<and> (e \<noteq> None \<longrightarrow> h = NilFunc)"
  by (auto simp: PortForward_def getKubeRestConfig_def makeChan_def closeChan_def Let_def nth_append
           split: sum.splits prod.splits option.splits selected.splits)

lemma PortForward_no_panic: "PortForward k c ns p lp rp st \<noteq> Inl x"
  using PortForward_shape[of k c ns p lp rp st] by auto

lemma PortForward_ok_handle: "PortForward k c ns p lp rp st = Inr ((h, None), st') \<Longrightarrow> h \<noteq> NilFunc"
  using PortForward_shape[of k c ns p lp rp st] by auto

lemma startTunnel_shape:
  "\<exists>h e st'. startTunnel k sc lp rp addr st = Inr ((h, e), st') \<and>
      (e = None \<longrightarrow> h \<noteq> NilFunc) \<and> (e \<noteq> None \<longrightarrow> h = NilFunc)"
  by (auto simp: startTunnel_def Let_def PortForward_no_panic
           split: sum.split prod.split option.split dest: PortForward_ok_handle)

lemma forwardService_shape:
  "\<exists>r st'. forwardService k sc site s st = Inr (r, st') \<and> r \<noteq> Inr NilFunc"
  using startTunnel_shape[of k sc "LocalPort (the (lookupService sc s))" "DefaultPort (the (lookupService sc s))"
     "Endpoint (the (lookupService sc s))" "emit (LogAttempt s (LocalPort (the (lookupService sc s))) (DefaultPort (the (lookupService sc s))) (Endpoint (the (lookupService sc s)))) st"]
  by (auto simp: forwardService_def Let_def split: option.splits)

lemma attempts_Cons [simp]:
  "attempts k sc site (s # svcs) st =
     (case forwardService k sc site s st of
        Inl p \<Rightarrow> []
      | Inr (r, st1) \<Rightarrow> (s, r) # attempts k sc site svcs st1)"
  by (simp add: forwardService_def Let_def split: option.split sum.split prod.split)

declare attempts.simps(2) [simp del]

lemma attempts_services: "map fst (attempts k sc site svcs st) = svcs"
proof (induction svcs arbitrary: st)
  case Nil
  show ?case by simp
next
  case (Cons s svcs)
  obtain r st1 where "forwardService k sc site s st = Inr (r, st1)"
    using forwardService_shape[of k sc site s st] by blast
  then show ?case using Cons.IH[of st1] by simp
qed

lemma attempts_handles_nonnil: "NilFunc \<notin> set (handlesOf (attempts k sc site svcs st))"
proof (induction svcs arbitrary: st)
  case Nil
  show ?case by simp
next
  case (Cons s svcs)
  obtain r st1 where r: "forwardService k sc site s st = Inr (r, st1)" "r \<noteq> Inr NilFunc"
    using forwardService_shape[of k sc site s st] by blast
  then show ?case using Cons.IH[of st1] by (cases r) auto
qed

lemma forwardLoop_attempts:
  "\<exists>st'. forwardLoop k sc site svcs errs succ st =
      Inr ((errs @ failuresOf (attempts k sc site svcs st),
            succ @ handlesOf (attempts k sc site svcs st)), st')"
proof (induction svcs arbitrary: errs succ st)
  case Nil
  show ?case by simp
next
  case (Cons s svcs)
  obtain r st1 where r: "forwardService k sc site s st = Inr (r, st1)"
    using forwardService_shape[of k sc site s st] by blast
  show ?case
  proof (cases r)
    case (Inl e)
    then show ?thesis using r Cons.IH[of "errs @ [e]" succ st1] by simp
  next
    case (Inr f)
    then show ?thesis using r Cons.IH[of errs "succ @ [f]" st1] by simp
  qed
qed

lemma outcomes_count:
  "length (failuresOf outs) + length (handlesOf outs) = length outs"
  by (induction outs rule: failuresOf.induct) auto


subsection \<open>The stages of a tunnel, over the answers of the world\<close>

text \<open>
  What each stage returns, and the state it leaves, for each answer of the world:
  the port-forward manager, the pod locator and the remote command executor over
  the registry and the calls to the cluster, and \<open>startTunnel\<close> over the results of
  its three stages.
\<close>

lemma PortForward_no_client:
  "clientMap st c = None \<Longrightarrow>
   PortForward k c ns p lp rp st =
     Inr ((NilFunc, Some (''failed to get client: client for context '' @ c @ '' not initialized'')), st)"
  by (simp add: PortForward_def GetClient_def)

lemma PortForward_config_fails:
  "clientMap st c = Some client \<Longrightarrow>
   clientConfig k (kubeConfig k) c (world st) = (Inl err, w1) \<Longrightarrow>
   PortForward k c ns p lp rp st =
     Inr ((NilFunc, Some (''failed to get config: '' @ err)),
          st\<lparr>world := w1, trace := trace st @ [LoadConfig (kubeConfig k) c]\<rparr>)"
  by (simp add: PortForward_def GetClient_def getKubeRestConfig_def)

lemma PortForward_roundTripper_fails:
  "clientMap st c = Some client \<Longrightarrow>
   clientConfig k (kubeConfig k) c (world st) = (Inr config, w1) \<Longrightarrow>
   roundTripperFor k config w1 = (Some err, w2) \<Longrightarrow>
   PortForward k c ns p lp rp st =
     Inr ((NilFunc, Some err),
          st\<lparr>world := w2, trace := trace st @ [LoadConfig (kubeConfig k) c]\<rparr>)"
  by (simp add: PortForward_def GetClient_def getKubeRestConfig_def)

lemma PortForward_forwarder_fails:
  "clientMap st c = Some client \<Longrightarrow>
   clientConfig k (kubeConfig k) c (world st) = (Inr config, w1) \<Longrightarrow>
   roundTripperFor k config w1 = (None, w2) \<Longrightarrow>
   newOnAddresses k config client ns p [''localhost''] [fmt_d lp @ '':'' @ fmt_d rp] w2 = (Some err, w3) \<Longrightarrow>
   PortForward k c ns p lp rp st =
     Inr ((NilFunc, Some err),
          st\<lparr>world := w3, trace := trace st @ [LoadConfig (kubeConfig k) c],
             chans := chans st @ [False, False]\<rparr>)"
  by (simp add: PortForward_def GetClient_def getKubeRestConfig_def makeChan_def Let_def)

lemma PortForward_waits:
  "clientMap st c = Some client \<Longrightarrow>
   clientConfig k (kubeConfig k) c (world st) = (Inr config, w1) \<Longrightarrow>
   roundTripperFor k config w1 = (None, w2) \<Longrightarrow>
   newOnAddresses k config client ns p [''localhost''] [fmt_d lp @ '':'' @ fmt_d rp] w2 = (None, w3) \<Longrightarrow>
   forwardPorts k config client ns p [fmt_d lp @ '':'' @ fmt_d rp] w3 = ((readyAt, tie), w4) \<Longrightarrow>
   PortForward k c ns p lp rp st =
     (case selectReady readyAt tie (10 * Second) of
        ReadyCase \<Rightarrow>
          Inr ((CloseChan (Suc (length (chans st))), None),
               st\<lparr>world := w4,
                  trace := trace st @ [LoadConfig (kubeConfig k) c,
                                       ForwardPorts ns p [fmt_d lp @ '':'' @ fmt_d rp]],
                  chans := chans st @ [False, False]\<rparr>)
      | TimeoutCase \<Rightarrow>
          Inr ((NilFunc, Some ''timed out waiting for port forward to be ready''),
               st\<lparr>world := w4,
                  trace := trace st @ [LoadConfig (kubeConfig k) c,
                                       ForwardPorts ns p [fmt_d lp @ '':'' @ fmt_d rp]],
                  chans := chans st @ [False, True]\<rparr>))"
  by (cases "selectReady readyAt tie (10 * Second)")
     (simp_all add: PortForward_def GetClient_def getKubeRestConfig_def makeChan_def closeChan_def
        Let_def nth_append list_update_append)

lemma GetPodNameByLabel_no_client:
  "clientMap st c = None \<Longrightarrow>
   GetPodNameByLabel k c ns sel st =
     (([], Some (''failed to get client: client for context '' @ c @ '' not initialized'')), st)"
  by (simp add: GetPodNameByLabel_def GetClient_def)

lemma GetPodNameByLabel_list_fails:
  "clientMap st c = Some client \<Longrightarrow> podsList k client ns sel (world st) = (Inl err, w) \<Longrightarrow>
   GetPodNameByLabel k c ns sel st =
     (([], Some err), st\<lparr>world := w, trace := trace st @ [ListPods ns sel]\<rparr>)"
  by (simp add: GetPodNameByLabel_def GetClient_def)

lemma GetPodNameByLabel_no_pods:
  "clientMap st c = Some client \<Longrightarrow> podsList k client ns sel (world st) = (Inr [], w) \<Longrightarrow>
   GetPodNameByLabel k c ns sel st =
     (([], Some (''no pods found with label '' @ sel @ '' in namespace '' @ ns)),
      st\<lparr>world := w, trace := trace st @ [ListPods ns sel]\<rparr>)"
  by (simp add: GetPodNameByLabel_def GetClient_def)

lemma GetPodNameByLabel_found:
  "clientMap st c = Some client \<Longrightarrow> podsList k client ns sel (world st) = (Inr (item # items), w) \<Longrightarrow>
   GetPodNameByLabel k c ns sel st =
     ((Name item, None), st\<lparr>world := w, trace := trace st @ [ListPods ns sel]\<rparr>)"
  by (simp add: GetPodNameByLabel_def GetClient_def)

lemma ExecPodCommand_no_client:
  "clientMap st c = None \<Longrightarrow>
   ExecPodCommand k c ns p cmd st =
     (([], [], Some (''failed to get client: client for context '' @ c @ '' not initialized'')), st)"
  by (simp add: ExecPodCommand_def GetClient_def)

lemma ExecPodCommand_config_fails:
  "clientMap st c = Some client \<Longrightarrow>
   clientConfig k (kubeConfig k) c (world st) = (Inl err, w1) \<Longrightarrow>
   ExecPodCommand k c ns p cmd st =
     (([], [], Some (''failed to get config: '' @ err)),
      st\<lparr>world := w1, trace := trace st @ [LoadConfig (kubeConfig k) c]\<rparr>)"
  by (simp add: ExecPodCommand_def GetClient_def getKubeRestConfig_def)

lemma ExecPodCommand_executor_fails:
  "clientMap st c = Some client \<Longrightarrow>
   clientConfig k (kubeConfig k) c (world st) = (Inr config, w1) \<Longrightarrow>
   newSPDYExecutor k config client p ns cmd w1 = (Some err, w2) \<Longrightarrow>
   ExecPodCommand k c ns p cmd st =
     (([], [], Some (''failed to init SPDY executor: '' @ err)),
      st\<lparr>world := w2, trace := trace st @ [LoadConfig (kubeConfig k) c]\<rparr>)"
  by (simp add: ExecPodCommand_def GetClient_def getKubeRestConfig_def ExecToPod_def)

lemma ExecPodCommand_streams:
  "clientMap st c = Some client \<Longrightarrow>
   clientConfig k (kubeConfig k) c (world st) = (Inr config, w1) \<Longrightarrow>
   newSPDYExecutor k config client p ns cmd w1 = (None, w2) \<Longrightarrow>
   execStream k config client p ns cmd w2 = ((out, serr, e), w3) \<Longrightarrow>
   ExecPodCommand k c ns p cmd st =
     ((out, serr, e),
      st\<lparr>world := w3, trace := trace st @ [LoadConfig (kubeConfig k) c, ExecStream p ns cmd]\<rparr>)"
  by (simp add: ExecPodCommand_def GetClient_def getKubeRestConfig_def ExecToPod_def)

lemma startTunnel_locate_fails:
  "GetPodNameByLabel k (KubeContext sc) (Namespace sc) (Porxy sc) st = ((pod, Some err), st1) \<Longrightarrow>
   startTunnel k sc lp rp addr st =
     Inr ((NilFunc, Some (''failed to get pod name in namespace '' @ [CHR 0x27] @ Namespace sc @
            [CHR 0x27] @ '' with selector '' @ [CHR 0x27] @ Porxy sc @ [CHR 0x27] @ '': '' @ err)), st1)"
  by (simp add: startTunnel_def)

lemma startTunnel_install_fails:
  "GetPodNameByLabel k (KubeContext sc) (Namespace sc) (Porxy sc) st = ((pod, None), st1) \<Longrightarrow>
   ExecPodCommand k (KubeContext sc) (Namespace sc) pod [''/bin/sh'', ''-c'', initScript rp addr]
     (emit (LogExecInit pod) (emit (LogPodFound pod (KubeContext sc)) st1)) = ((out, serr, Some err), st3) \<Longrightarrow>
   startTunnel k sc lp rp addr st =
     Inr ((NilFunc, Some (''failed to exec init script in pod '' @ pod @ '': '' @ err @
            [CHR 0x0A] @ ''stdout: '' @ out @ [CHR 0x0A] @ ''stderr: '' @ serr)), st3)"
  by (simp add: startTunnel_def Let_def)

lemma startTunnel_launch_fails:
  "GetPodNameByLabel k (KubeContext sc) (Namespace sc) (Porxy sc) st = ((pod, None), st1) \<Longrightarrow>
   ExecPodCommand k (KubeContext sc) (Namespace sc) pod [''/bin/sh'', ''-c'', initScript rp addr]
     (emit (LogExecInit pod) (emit (LogPodFound pod (KubeContext sc)) st1)) = ((out, serr, None), st3) \<Longrightarrow>
   ExecPodCommand k (KubeContext sc) (Namespace sc) pod [''/tmp/run_socat_'' @ fmt_d rp @ ''.sh'']
     (emit (LogExecRun (''/tmp/run_socat_'' @ fmt_d rp @ ''.sh'') pod)
       (emit LogInitExecuted
         (emitIf (serr \<noteq> []) (StderrInitWarning pod serr)
           (emitIf (out \<noteq> []) (LogInitStdout out) st3)))) = ((out2, serr2, Some err), st5) \<Longrightarrow>
   startTunnel k sc lp rp addr st =
     Inr ((NilFunc, Some (''failed to start socat via '' @ ''/tmp/run_socat_'' @ fmt_d rp @ ''.sh'' @
            '' in pod '' @ pod @ '': '' @ err @ [CHR 0x0A] @ ''stdout: '' @ out2 @ [CHR 0x0A] @
            ''stderr: '' @ serr2)), st5)"
  by (simp add: startTunnel_def Let_def)

lemma startTunnel_forward:
  "GetPodNameByLabel k (KubeContext sc) (Namespace sc) (Porxy sc) st = ((pod, None), st1) \<Longrightarrow>
   ExecPodCommand k (KubeContext sc) (Namespace sc) pod [''/bin/sh'', ''-c'', initScript rp addr]
     (emit (LogExecInit pod) (emit (LogPodFound pod (KubeContext sc)) st1)) = ((out, serr, None), st3) \<Longrightarrow>
   ExecPodCommand k (KubeContext sc) (Namespace sc) pod [''/tmp/run_socat_'' @ fmt_d rp @ ''.sh'']
     (emit (LogExecRun (''/tmp/run_socat_'' @ fmt_d rp @ ''.sh'') pod)
       (emit LogInitExecuted
         (emitIf (serr \<noteq> []) (StderrInitWarning pod serr)
           (emitIf (out \<noteq> []) (LogInitStdout out) st3)))) = ((out2, serr2, None), st5) \<Longrightarrow>
   PortForward k (KubeContext sc) (Namespace sc) pod lp rp
     (emit (LogStartPortForward lp pod (Namespace sc) rp)
       (emit (LogRunExecuted pod)
         (emitIf (serr2 \<noteq> []) (StderrRunWarning (''/tmp/run_socat_'' @ fmt_d rp @ ''.sh'') pod serr2)
           (emitIf (out2 \<noteq> []) (LogRunStdout out2) st5)))) = Inr ((h, e), st7) \<Longrightarrow>
   startTunnel k sc lp rp addr st =
     (case e of
        Some err \<Rightarrow>
          Inr ((NilFunc, Some (''failed to start port-forward from localhost:'' @ fmt_d lp @
                 '' to pod '' @ pod @ '' remote port '' @ fmt_d rp @ '': '' @ err)), st7)
      | None \<Rightarrow> Inr ((h, None), st7))"
  by (cases e) (simp_all add: startTunnel_def Let_def)

subsection \<open>Forward: partial success\<close>

lemma attempts_unknown:
  "s \<in> set svcs \<Longrightarrow> lookupService sc s = None \<Longrightarrow>
   ''service '' @ s @ '' not found in site '' @ site @ '' configuration''
     \<in> set (failuresOf (attempts k sc site svcs st))"
proof (induction svcs arbitrary: st)
  case Nil
  then show ?case by simp
next
  case (Cons x svcs)
  obtain r st1 where r: "forwardService k sc site x st = Inr (r, st1)"
    using forwardService_shape[of k sc site x st] by blast
  show ?case
  proof (cases "x = s")
    case True
    then have "r = Inl (''service '' @ s @ '' not found in site '' @ site @ '' configuration'')"
      using r Cons.prems(2) by (simp add: forwardService_def)
    then show ?thesis using r by simp
  next
    case False
    then have "s \<in> set svcs" using Cons.prems(1) by simp
    from Cons.IH[OF this Cons.prems(2), of st1] show ?thesis using r by (cases r) auto
  qed
qed

lemma forwardService_cause:
  "forwardService k sc site s st = Inr (Inl e, st1) \<Longrightarrow>
     e = ''service '' @ s @ '' not found in site '' @ site @ '' configuration'' \<or>
     (\<exists>err. e = ''failed to start tunnel for service '' @ s @ '': '' @ err)"
  by (auto simp: forwardService_def Let_def split: option.splits sum.splits prod.splits)

lemma attempts_causes:
  "(s, Inl e) \<in> set (attempts k sc site svcs st) \<Longrightarrow>
     e = ''service '' @ s @ '' not found in site '' @ site @ '' configuration'' \<or>
     (\<exists>err. e = ''failed to start tunnel for service '' @ s @ '': '' @ err)"
proof (induction svcs arbitrary: st)
  case Nil
  then show ?case by simp
next
  case (Cons x svcs)
  obtain r st1 where r: "forwardService k sc site x st = Inr (r, st1)"
    using forwardService_shape[of k sc site x st] by blast
  from Cons.prems r have "(s, Inl e) = (x, r) \<or> (s, Inl e) \<in> set (attempts k sc site svcs st1)"
    by simp
  then show ?case
  proof
    assume "(s, Inl e) = (x, r)"
    then show ?thesis using forwardService_cause[of k sc site x st e st1] r by simp
  next
    assume "(s, Inl e) \<in> set (attempts k sc site svcs st1)"
    then show ?thesis by (rule Cons.IH)
  qed
qed


lemma Forward_attempts_result:
  assumes "map_of (Sites cfg) site = Some sc"
    and "KubeContext sc \<noteq> []"
    and "fst (InitClients k [KubeContext sc] st) = None"
  shows "let outs = attempts k sc site services (snd (InitClients k [KubeContext sc] st));
             K = length (failuresOf outs);
             N = length services
         in map fst outs = services \<and> K \<le> N \<and>
            (\<exists>st'. Forward k cfg site services st =
               Inr ((handlesOf outs,
                     if K = 0 then None
                     else Some (''some services failed to start tunnels ('' @ fmt_d (int K) @ ''/'' @
                                fmt_d (int N) @ ''): '' @ strings_Join (failuresOf outs) ''; '')),
                    st')) \<and>
            length (handlesOf outs) = N - K \<and>
            NilFunc \<notin> set (handlesOf outs) \<and>
            (\<forall>s\<in>set services. lookupService sc s = None \<longrightarrow>
               ''service '' @ s @ '' not found in site '' @ site @ '' configuration''
                 \<in> set (failuresOf outs)) \<and>
            (\<forall>(s, r)\<in>set outs. \<forall>e. r = Inl e \<longrightarrow>
               e = ''service '' @ s @ '' not found in site '' @ site @ '' configuration'' \<or>
               (\<exists>err. e = ''failed to start tunnel for service '' @ s @ '': '' @ err))"
proof -
  define st1 where "st1 = snd (InitClients k [KubeContext sc] st)"
  define outs where "outs = attempts k sc site services st1"
  have init: "InitClients k [KubeContext sc] st = (None, st1)"
    using assms(3) by (simp add: st1_def prod_eq_iff)
  have len: "length outs = length services"
    using attempts_services[of k sc site services st1] unfolding outs_def
    by (metis length_map)
  have cnt: "length (failuresOf outs) + length (handlesOf outs) = length services"
    using outcomes_count[of outs] len by simp
  obtain st2 where loop: "forwardLoop k sc site services [] [] st1 =
      Inr ((failuresOf outs, handlesOf outs), st2)"
    using forwardLoop_attempts[of k sc site services "[]" "[]" st1] unfolding outs_def by auto
  have fw: "\<exists>st'. Forward k cfg site services st =
      Inr ((handlesOf outs,
            if length (failuresOf outs) = 0 then None
            else Some (''some services failed to start tunnels ('' @
                       fmt_d (int (length (failuresOf outs))) @ ''/'' @
                       fmt_d (int (length services)) @ ''): '' @
                       strings_Join (failuresOf outs) ''; '')), st')"
    using assms(1,2) init loop by (simp add: Forward_def aggregateError_def)
  have unk: "\<forall>s\<in>set services. lookupService sc s = None \<longrightarrow>
      ''service '' @ s @ '' not found in site '' @ site @ '' configuration'' \<in> set (failuresOf outs)"
    unfolding outs_def using attempts_unknown by blast
  have causes: "\<forall>(s, r)\<in>set outs. \<forall>e. r = Inl e \<longrightarrow>
      e = ''service '' @ s @ '' not found in site '' @ site @ '' configuration'' \<or>
      (\<exists>err. e = ''failed to start tunnel for service '' @ s @ '': '' @ err)"
    unfolding outs_def using attempts_causes by blast
  have "map fst outs = services"
    unfolding outs_def by (rule attempts_services)
  moreover have "length (failuresOf outs) \<le> length services" using cnt by simp
  moreover have "length (handlesOf outs) = length services - length (failuresOf outs)"
    using cnt by simp
  moreover have "NilFunc \<notin> set (handlesOf outs)"
    unfolding outs_def by (rule attempts_handles_nonnil)
  ultimately show ?thesis
    using fw unk causes unfolding Let_def outs_def st1_def by blast
qed

text \<open>
  C1. A call of \<open>Forward\<close> on a configured site (the site is in the configuration,
  its \<open>kubeContext\<close> is not empty) whose client initialisation succeeds makes one
  attempt for every requested service, in the order of the request (\<open>outs\<close>, with
  \<open>N\<close> entries), whatever the attempts before it produced, and does not panic. An
  attempt fails when the site does not configure the service or when \<open>startTunnel\<close>
  returns an error for it, and succeeds with the stop function of \<open>startTunnel\<close>
  otherwise (the definition of \<open>attempts\<close>). With \<open>K\<close> the number of failed
  attempts, \<open>Forward\<close> returns the \<open>N - K\<close> stop functions of the successful
  attempts, none of them nil, and the error is nil when \<open>K = 0\<close> and otherwise the
  aggregated error \<open>some services failed to start tunnels (K/N): ...\<close> listing the
  causes. An unknown service name is one of the recorded failures, and every cause
  names its service.

  The other conjuncts say when \<open>startTunnel\<close> fails, stage by stage, down to the
  answers of the world. \<open>startTunnel\<close> fails with the error of the pod locator, of
  the first command (the init script) or of the second command (the launch
  script), each wrapped with its context, or with the error of \<open>PortForward\<close>, and
  otherwise returns the stop function of \<open>PortForward\<close>. The pod locator fails when
  the client is not registered, when the listing fails and when the list is empty.
  A command fails when the client is not registered, when the kubeconfig does not
  load, when the executor cannot be built, and with the error of the stream.
  \<open>PortForward\<close> fails when the client is not registered, when the kubeconfig does
  not load, when the round tripper or the forwarder cannot be built, and when the
  forwarder is not ready within ten seconds.
\<close>

theorem Forward_partial_success:
  "(map_of (Sites cfg) site = Some sc \<and> KubeContext sc \<noteq> [] \<and>
    fst (InitClients k [KubeContext sc] st) = None
    \<longrightarrow>
    (let outs = attempts k sc site services (snd (InitClients k [KubeContext sc] st));
             K = length (failuresOf outs);
             N = length services
         in map fst outs = services \<and> K \<le> N \<and>
            (\<exists>st'. Forward k cfg site services st =
               Inr ((handlesOf outs,
                     if K = 0 then None
                     else Some (''some services failed to start tunnels ('' @ fmt_d (int K) @ ''/'' @
                                fmt_d (int N) @ ''): '' @ strings_Join (failuresOf outs) ''; '')),
                    st')) \<and>
            length (handlesOf outs) = N - K \<and>
            NilFunc \<notin> set (handlesOf outs) \<and>
            (\<forall>s\<in>set services. lookupService sc s = None \<longrightarrow>
               ''service '' @ s @ '' not found in site '' @ site @ '' configuration''
                 \<in> set (failuresOf outs)) \<and>
            (\<forall>(s, r)\<in>set outs. \<forall>e. r = Inl e \<longrightarrow>
               e = ''service '' @ s @ '' not found in site '' @ site @ '' configuration'' \<or>
               (\<exists>err. e = ''failed to start tunnel for service '' @ s @ '': '' @ err)))) \<and>
   (GetPodNameByLabel k (KubeContext sc) (Namespace sc) (Porxy sc) st = ((pod, Some err), st1)
    \<longrightarrow>
    startTunnel k sc lp rp addr st =
      Inr ((NilFunc, Some (''failed to get pod name in namespace '' @ [CHR 0x27] @ Namespace sc @
             [CHR 0x27] @ '' with selector '' @ [CHR 0x27] @ Porxy sc @ [CHR 0x27] @ '': '' @ err)), st1)) \<and>
   (GetPodNameByLabel k (KubeContext sc) (Namespace sc) (Porxy sc) st = ((pod, None), st1) \<and>
    ExecPodCommand k (KubeContext sc) (Namespace sc) pod [''/bin/sh'', ''-c'', initScript rp addr]
      (emit (LogExecInit pod) (emit (LogPodFound pod (KubeContext sc)) st1)) = ((out, serr, Some err), st3)
    \<longrightarrow>
    startTunnel k sc lp rp addr st =
      Inr ((NilFunc, Some (''failed to exec init script in pod '' @ pod @ '': '' @ err @
             [CHR 0x0A] @ ''stdout: '' @ out @ [CHR 0x0A] @ ''stderr: '' @ serr)), st3)) \<and>
   (GetPodNameByLabel k (KubeContext sc) (Namespace sc) (Porxy sc) st = ((pod, None), st1) \<and>
    ExecPodCommand k (KubeContext sc) (Namespace sc) pod [''/bin/sh'', ''-c'', initScript rp addr]
      (emit (LogExecInit pod) (emit (LogPodFound pod (KubeContext sc)) st1)) = ((out, serr, None), st3) \<and>
    ExecPodCommand k (KubeContext sc) (Namespace sc) pod [''/tmp/run_socat_'' @ fmt_d rp @ ''.sh'']
      (emit (LogExecRun (''/tmp/run_socat_'' @ fmt_d rp @ ''.sh'') pod)
        (emit LogInitExecuted
          (emitIf (serr \<noteq> []) (StderrInitWarning pod serr)
            (emitIf (out \<noteq> []) (LogInitStdout out) st3)))) = ((out2, serr2, Some err), st5)
    \<longrightarrow>
    startTunnel k sc lp rp addr st =
      Inr ((NilFunc, Some (''failed to start socat via '' @ ''/tmp/run_socat_'' @ fmt_d rp @ ''.sh'' @
             '' in pod '' @ pod @ '': '' @ err @ [CHR 0x0A] @ ''stdout: '' @ out2 @ [CHR 0x0A] @
             ''stderr: '' @ serr2)), st5)) \<and>
   (GetPodNameByLabel k (KubeContext sc) (Namespace sc) (Porxy sc) st = ((pod, None), st1) \<and>
    ExecPodCommand k (KubeContext sc) (Namespace sc) pod [''/bin/sh'', ''-c'', initScript rp addr]
      (emit (LogExecInit pod) (emit (LogPodFound pod (KubeContext sc)) st1)) = ((out, serr, None), st3) \<and>
    ExecPodCommand k (KubeContext sc) (Namespace sc) pod [''/tmp/run_socat_'' @ fmt_d rp @ ''.sh'']
      (emit (LogExecRun (''/tmp/run_socat_'' @ fmt_d rp @ ''.sh'') pod)
        (emit LogInitExecuted
          (emitIf (serr \<noteq> []) (StderrInitWarning pod serr)
            (emitIf (out \<noteq> []) (LogInitStdout out) st3)))) = ((out2, serr2, None), st5) \<and>
    PortForward k (KubeContext sc) (Namespace sc) pod lp rp
      (emit (LogStartPortForward lp pod (Namespace sc) rp)
        (emit (LogRunExecuted pod)
          (emitIf (serr2 \<noteq> []) (StderrRunWarning (''/tmp/run_socat_'' @ fmt_d rp @ ''.sh'') pod serr2)
            (emitIf (out2 \<noteq> []) (LogRunStdout out2) st5)))) = Inr ((h, e), st7)
    \<longrightarrow>
    startTunnel k sc lp rp addr st =
      (case e of
         Some err \<Rightarrow>
           Inr ((NilFunc, Some (''failed to start port-forward from localhost:'' @ fmt_d lp @
                  '' to pod '' @ pod @ '' remote port '' @ fmt_d rp @ '': '' @ err)), st7)
       | None \<Rightarrow> Inr ((h, None), st7))) \<and>
   (clientMap st c = None
    \<longrightarrow>
    GetPodNameByLabel k c ns sel st =
      (([], Some (''failed to get client: client for context '' @ c @ '' not initialized'')), st)) \<and>
   (clientMap st c = Some client \<and>
    podsList k client ns sel (world st) = (Inl err, w)
    \<longrightarrow>
    GetPodNameByLabel k c ns sel st =
      (([], Some err), st\<lparr>world := w, trace := trace st @ [ListPods ns sel]\<rparr>)) \<and>
   (clientMap st c = Some client \<and>
    podsList k client ns sel (world st) = (Inr [], w)
    \<longrightarrow>
    GetPodNameByLabel k c ns sel st =
      (([], Some (''no pods found with label '' @ sel @ '' in namespace '' @ ns)),
       st\<lparr>world := w, trace := trace st @ [ListPods ns sel]\<rparr>)) \<and>
   (clientMap st c = Some client \<and>
    podsList k client ns sel (world st) = (Inr (item # items), w)
    \<longrightarrow>
    GetPodNameByLabel k c ns sel st =
      ((Name item, None), st\<lparr>world := w, trace := trace st @ [ListPods ns sel]\<rparr>)) \<and>
   (clientMap st c = None
    \<longrightarrow>
    ExecPodCommand k c ns p cmd st =
      (([], [], Some (''failed to get client: client for context '' @ c @ '' not initialized'')), st)) \<and>
   (clientMap st c = Some client \<and>
    clientConfig k (kubeConfig k) c (world st) = (Inl err, w1)
    \<longrightarrow>
    ExecPodCommand k c ns p cmd st =
      (([], [], Some (''failed to get config: '' @ err)),
       st\<lparr>world := w1, trace := trace st @ [LoadConfig (kubeConfig k) c]\<rparr>)) \<and>
   (clientMap st c = Some client \<and>
    clientConfig k (kubeConfig k) c (world st) = (Inr config, w1) \<and>
    newSPDYExecutor k config client p ns cmd w1 = (Some err, w2)
    \<longrightarrow>
    ExecPodCommand k c ns p cmd st =
      (([], [], Some (''failed to init SPDY executor: '' @ err)),
       st\<lparr>world := w2, trace := trace st @ [LoadConfig (kubeConfig k) c]\<rparr>)) \<and>
   (clientMap st c = Some client \<and>
    clientConfig k (kubeConfig k) c (world st) = (Inr config, w1) \<and>
    newSPDYExecutor k config client p ns cmd w1 = (None, w2) \<and>
    execStream k config client p ns cmd w2 = ((out, serr, e), w3)
    \<longrightarrow>
    ExecPodCommand k c ns p cmd st =
      ((out, serr, e),
       st\<lparr>world := w3, trace := trace st @ [LoadConfig (kubeConfig k) c, ExecStream p ns cmd]\<rparr>)) \<and>
   (clientMap st c = None
    \<longrightarrow>
    PortForward k c ns p lp rp st =
      Inr ((NilFunc, Some (''failed to get client: client for context '' @ c @ '' not initialized'')), st)) \<and>
   (clientMap st c = Some client \<and>
    clientConfig k (kubeConfig k) c (world st) = (Inl err, w1)
    \<longrightarrow>
    PortForward k c ns p lp rp st =
      Inr ((NilFunc, Some (''failed to get config: '' @ err)),
           st\<lparr>world := w1, trace := trace st @ [LoadConfig (kubeConfig k) c]\<rparr>)) \<and>
   (clientMap st c = Some client \<and>
    clientConfig k (kubeConfig k) c (world st) = (Inr config, w1) \<and>
    roundTripperFor k config w1 = (Some err, w2)
    \<longrightarrow>
    PortForward k c ns p lp rp st =
      Inr ((NilFunc, Some err),
           st\<lparr>world := w2, trace := trace st @ [LoadConfig (kubeConfig k) c]\<rparr>)) \<and>
   (clientMap st c = Some client \<and>
    clientConfig k (kubeConfig k) c (world st) = (Inr config, w1) \<and>
    roundTripperFor k config w1 = (None, w2) \<and>
    newOnAddresses k config client ns p [''localhost''] [fmt_d lp @ '':'' @ fmt_d rp] w2 = (Some err, w3)
    \<longrightarrow>
    PortForward k c ns p lp rp st =
      Inr ((NilFunc, Some err),
           st\<lparr>world := w3, trace := trace st @ [LoadConfig (kubeConfig k) c],
              chans := chans st @ [False, False]\<rparr>)) \<and>
   (clientMap st c = Some client \<and>
    clientConfig k (kubeConfig k) c (world st) = (Inr config, w1) \<and>
    roundTripperFor k config w1 = (None, w2) \<and>
    newOnAddresses k config client ns p [''localhost''] [fmt_d lp @ '':'' @ fmt_d rp] w2 = (None, w3) \<and>
    forwardPorts k config client ns p [fmt_d lp @ '':'' @ fmt_d rp] w3 = ((readyAt, tie), w4)
    \<longrightarrow>
    PortForward k c ns p lp rp st =
      (case selectReady readyAt tie (10 * Second) of
         ReadyCase \<Rightarrow>
           Inr ((CloseChan (Suc (length (chans st))), None),
                st\<lparr>world := w4,
                   trace := trace st @ [LoadConfig (kubeConfig k) c,
                                        ForwardPorts ns p [fmt_d lp @ '':'' @ fmt_d rp]],
                   chans := chans st @ [False, False]\<rparr>)
       | TimeoutCase \<Rightarrow>
           Inr ((NilFunc, Some ''timed out waiting for port forward to be ready''),
                st\<lparr>world := w4,
                   trace := trace st @ [LoadConfig (kubeConfig k) c,
                                        ForwardPorts ns p [fmt_d lp @ '':'' @ fmt_d rp]],
                   chans := chans st @ [False, True]\<rparr>)))"
  (is "?main \<and> ?tunlocatefails \<and>
       ?tuninstallfails \<and>
       ?tunlaunchfails \<and>
       ?tunforward \<and>
       ?podnoclient \<and>
       ?podlistfails \<and>
       ?podnopods \<and>
       ?podfound \<and>
       ?execnoclient \<and>
       ?execconfigfails \<and>
       ?execexecutorfails \<and>
       ?execstreams \<and>
       ?pfnoclient \<and>
       ?pfconfigfails \<and>
       ?pfroundTripperfails \<and>
       ?pfforwarderfails \<and>
       ?pfwaits")
proof -
  have main_c: ?main
    using Forward_attempts_result[of cfg site sc k st services] by blast
  have tun_locate_fails_c: ?tunlocatefails
    by (intro impI; (elim conjE)?; rule startTunnel_locate_fails; assumption)
  have tun_install_fails_c: ?tuninstallfails
    by (intro impI; (elim conjE)?; rule startTunnel_install_fails; assumption)
  have tun_launch_fails_c: ?tunlaunchfails
    by (intro impI; (elim conjE)?; rule startTunnel_launch_fails; assumption)
  have tun_forward_c: ?tunforward
    by (intro impI; (elim conjE)?; rule startTunnel_forward; assumption)
  have pod_no_client_c: ?podnoclient
    by (intro impI; (elim conjE)?; rule GetPodNameByLabel_no_client; assumption)
  have pod_list_fails_c: ?podlistfails
    by (intro impI; (elim conjE)?; rule GetPodNameByLabel_list_fails; assumption)
  have pod_no_pods_c: ?podnopods
    by (intro impI; (elim conjE)?; rule GetPodNameByLabel_no_pods; assumption)
  have pod_found_c: ?podfound
    by (intro impI; (elim conjE)?; rule GetPodNameByLabel_found; assumption)
  have exec_no_client_c: ?execnoclient
    by (intro impI; (elim conjE)?; rule ExecPodCommand_no_client; assumption)
  have exec_config_fails_c: ?execconfigfails
    by (intro impI; (elim conjE)?; rule ExecPodCommand_config_fails; assumption)
  have exec_executor_fails_c: ?execexecutorfails
    by (intro impI; (elim conjE)?; rule ExecPodCommand_executor_fails; assumption)
  have exec_streams_c: ?execstreams
    by (intro impI; (elim conjE)?; rule ExecPodCommand_streams; assumption)
  have pf_no_client_c: ?pfnoclient
    by (intro impI; (elim conjE)?; rule PortForward_no_client; assumption)
  have pf_config_fails_c: ?pfconfigfails
    by (intro impI; (elim conjE)?; rule PortForward_config_fails; assumption)
  have pf_roundTripper_fails_c: ?pfroundTripperfails
    by (intro impI; (elim conjE)?; rule PortForward_roundTripper_fails; assumption)
  have pf_forwarder_fails_c: ?pfforwarderfails
    by (intro impI; (elim conjE)?; rule PortForward_forwarder_fails; assumption)
  have pf_waits_c: ?pfwaits
    by (intro impI; (elim conjE)?; rule PortForward_waits; assumption)
  show ?thesis
    by (rule conjI[OF main_c conjI[OF tun_locate_fails_c conjI[OF tun_install_fails_c conjI[OF tun_launch_fails_c conjI[OF tun_forward_c conjI[OF pod_no_client_c conjI[OF pod_list_fails_c conjI[OF pod_no_pods_c conjI[OF pod_found_c conjI[OF exec_no_client_c conjI[OF exec_config_fails_c conjI[OF exec_executor_fails_c conjI[OF exec_streams_c conjI[OF pf_no_client_c conjI[OF pf_config_fails_c conjI[OF pf_roundTripper_fails_c conjI[OF pf_forwarder_fails_c pf_waits_c]]]]]]]]]]]]]]]]])
qed

theorem Forward_partial_success_witness:
  "map_of (Sites cfgDemo) ''s1'' = Some siteDemo \<and> KubeContext siteDemo \<noteq> [] \<and>
   fst (InitClients kDemo [KubeContext siteDemo] st0) = None \<and>
   attempts kDemo siteDemo ''s1'' [''a'', ''missing'', ''b''] (snd (InitClients kDemo [KubeContext siteDemo] st0)) =
     [(''a'', Inr (CloseChan 1)),
      (''missing'', Inl ''service missing not found in site s1 configuration''),
      (''b'', Inl (''failed to start tunnel for service b: failed to start port-forward from '' @
                   ''localhost:101 to pod proxy-0 remote port 201: '' @
                   ''timed out waiting for port forward to be ready''))] \<and>
   (case Forward kDemo cfgDemo ''s1'' [''a'', ''missing'', ''b''] st0 of
      Inl p \<Rightarrow> False
    | Inr ((hs, e), st') \<Rightarrow>
        hs = [CloseChan 1] \<and>
        e = Some (''some services failed to start tunnels (2/3): '' @
                  ''service missing not found in site s1 configuration; '' @
                  ''failed to start tunnel for service b: failed to start port-forward from '' @
                  ''localhost:101 to pod proxy-0 remote port 201: '' @
                  ''timed out waiting for port forward to be ready'')) \<and>
   (case Forward kDemo cfgDemo ''s1'' [''a'', ''a''] st0 of
      Inl p \<Rightarrow> False
    | Inr ((hs, e), st') \<Rightarrow> hs = [CloseChan 1, CloseChan 3] \<and> e = None) \<and>
   (case Forward kDemo (cfgDemo\<lparr>Sites := [(''s4'', siteDemo\<lparr>Porxy := ''app=none''\<rparr>)]\<rparr>)
           ''s4'' [''a'', ''b''] st0 of
      Inl p \<Rightarrow> False
    | Inr ((hs, e), st') \<Rightarrow>
        hs = [] \<and>
        e = Some (''some services failed to start tunnels (2/2): '' @
                  ''failed to start tunnel for service a: failed to get pod name in namespace '' @
                  [CHR 0x27] @ ''ns1'' @ [CHR 0x27] @ '' with selector '' @ [CHR 0x27] @ ''app=none'' @
                  [CHR 0x27] @ '': no pods found with label app=none in namespace ns1; '' @
                  ''failed to start tunnel for service b: failed to get pod name in namespace '' @
                  [CHR 0x27] @ ''ns1'' @ [CHR 0x27] @ '' with selector '' @ [CHR 0x27] @ ''app=none'' @
                  [CHR 0x27] @ '': no pods found with label app=none in namespace ns1'')) \<and>
   (case Forward (kDemo\<lparr>execStream := (\<lambda>c cl p ns cmd w.
                     ((''o'', ''e'', Some ''command terminated with exit code 1''), Suc w))\<rparr>)
           cfgDemo ''s1'' [''a''] st0 of
      Inl p \<Rightarrow> False
    | Inr ((hs, e), st') \<Rightarrow>
        hs = [] \<and>
        e = Some (''some services failed to start tunnels (1/1): '' @
                  ''failed to start tunnel for service a: failed to exec init script in pod proxy-0: '' @
                  ''command terminated with exit code 1'' @ [CHR 0x0A] @ ''stdout: o'' @ [CHR 0x0A] @
                  ''stderr: e''))"
proof -
  have "map_of (Sites cfgDemo) ''s1'' = Some siteDemo \<and> KubeContext siteDemo \<noteq> [] \<and>
      fst (InitClients kDemo [KubeContext siteDemo] st0) = None \<longrightarrow>
      (let outs = attempts kDemo siteDemo ''s1'' [''a'', ''missing'', ''b'']
                    (snd (InitClients kDemo [KubeContext siteDemo] st0));
           K = length (failuresOf outs);
           N = length [''a'', ''missing'', ''b'']
       in map fst outs = [''a'', ''missing'', ''b''] \<and> K \<le> N \<and>
          (\<exists>st'. Forward kDemo cfgDemo ''s1'' [''a'', ''missing'', ''b''] st0 =
             Inr ((handlesOf outs,
                   if K = 0 then None
                   else Some (''some services failed to start tunnels ('' @ fmt_d (int K) @ ''/'' @
                              fmt_d (int N) @ ''): '' @ strings_Join (failuresOf outs) ''; '')),
                  st')) \<and>
          length (handlesOf outs) = N - K \<and>
          NilFunc \<notin> set (handlesOf outs) \<and>
          (\<forall>s\<in>set [''a'', ''missing'', ''b'']. lookupService siteDemo s = None \<longrightarrow>
             ''service '' @ s @ '' not found in site '' @ ''s1'' @ '' configuration''
               \<in> set (failuresOf outs)) \<and>
          (\<forall>(s, r)\<in>set outs. \<forall>e. r = Inl e \<longrightarrow>
             e = ''service '' @ s @ '' not found in site '' @ ''s1'' @ '' configuration'' \<or>
             (\<exists>err. e = ''failed to start tunnel for service '' @ s @ '': '' @ err)))"
    by (rule conjunct1[OF Forward_partial_success[where cfg = cfgDemo and site = "''s1''"
          and sc = siteDemo and k = kDemo and st = st0 and services = "[''a'', ''missing'', ''b'']"]])
  then show ?thesis
    by (simp add: evals)
qed

subsection \<open>Forward: the guards before the loop\<close>

text \<open>
  C10. When the site is in the configuration and its \<open>kubeContext\<close> is the empty
  string, \<open>Forward\<close> returns no handles and the error
  \<open>kubeContext not found for site <site>\<close>, in the state in which it was called:
  no client was initialised and no service attempted.
\<close>

theorem Forward_empty_kubeContext:
  assumes "map_of (Sites cfg) site = Some sc" and "KubeContext sc = []"
  shows "Forward k cfg site services st =
           Inr (([], Some (''kubeContext not found for site '' @ site)), st)"
  using assms by (simp add: Forward_def)

theorem Forward_empty_kubeContext_witness:
  "map_of (Sites cfgDemo) ''s2'' = Some (siteDemo\<lparr>KubeContext := []\<rparr>) \<and>
   KubeContext (siteDemo\<lparr>KubeContext := []\<rparr>) = [] \<and>
   Forward kDemo cfgDemo ''s2'' [''a'', ''b''] st0 =
     Inr (([], Some ''kubeContext not found for site s2''), st0)"
  using Forward_empty_kubeContext[of cfgDemo "''s2''" "siteDemo\<lparr>KubeContext := []\<rparr>" kDemo "[''a'', ''b'']" st0]
  by (simp add: cfgDemo_def)

lemma InitClients_single_fail_trace:
  "fst (InitClients k [c] st) = Some err \<Longrightarrow>
     trace (snd (InitClients k [c] st)) = trace st @ [LoadConfig (kubeConfig k) c] \<and>
     clientMap (snd (InitClients k [c] st)) = clientMap st \<and>
     chans (snd (InitClients k [c] st)) = chans st"
  by (auto simp: getKubeRestConfig_def NewForConfig_def split: prod.splits sum.splits option.splits)

text \<open>
  C4. When the initialisation of the cluster client for the site's context fails,
  \<open>Forward\<close> returns no handles and the error
  \<open>failed to initialize clients for context <ctx>: <cause>\<close>. The state it returns is
  the one \<open>InitClients\<close> left: the trace has gained the one load of the kubeconfig
  and nothing else (no pod was listed, no command run, no forward started), the
  registry and the channels are as before.
\<close>

theorem Forward_init_failure:
  assumes "map_of (Sites cfg) site = Some sc"
    and "KubeContext sc \<noteq> []"
    and "fst (InitClients k [KubeContext sc] st) = Some err"
  shows "Forward k cfg site services st =
           Inr (([], Some (''failed to initialize clients for context '' @ KubeContext sc @ '': '' @ err)),
                snd (InitClients k [KubeContext sc] st)) \<and>
         trace (snd (InitClients k [KubeContext sc] st)) =
           trace st @ [LoadConfig (kubeConfig k) (KubeContext sc)] \<and>
         clientMap (snd (InitClients k [KubeContext sc] st)) = clientMap st \<and>
         chans (snd (InitClients k [KubeContext sc] st)) = chans st"
proof -
  obtain st1 where init: "InitClients k [KubeContext sc] st = (Some err, st1)"
    using assms(3) by (cases "InitClients k [KubeContext sc] st") (simp del: InitClients.simps)
  have "Forward k cfg site services st =
           Inr (([], Some (''failed to initialize clients for context '' @ KubeContext sc @ '': '' @ err)),
                st1)"
    using assms(1,2) init by (simp add: Forward_def del: InitClients.simps)
  moreover have "snd (InitClients k [KubeContext sc] st) = st1"
    using init by (simp del: InitClients.simps)
  ultimately show ?thesis
    using InitClients_single_fail_trace[OF assms(3)] by (simp del: InitClients.simps)
qed

theorem Forward_init_failure_witness:
  "map_of (Sites cfgDemo) ''s3'' = Some (siteDemo\<lparr>KubeContext := ''bad''\<rparr>) \<and>
   KubeContext (siteDemo\<lparr>KubeContext := ''bad''\<rparr>) \<noteq> [] \<and>
   fst (InitClients kDemo [''bad''] st0) = Some ''failed to get client config for context bad: context not found'' \<and>
   (case Forward kDemo cfgDemo ''s3'' [''a'', ''b''] st0 of
      Inl p \<Rightarrow> False
    | Inr ((hs, e), st') \<Rightarrow>
        hs = [] \<and>
        e = Some (''failed to initialize clients for context bad: '' @
                  ''failed to get client config for context bad: context not found'') \<and>
        trace st' = [LoadConfig ''/home/u/.kube/config'' ''bad''] \<and> chans st' = [])"
  using Forward_init_failure[of cfgDemo "''s3''" "siteDemo\<lparr>KubeContext := ''bad''\<rparr>" kDemo st0
      "''failed to get client config for context bad: context not found''" "[''a'', ''b'']"]
  by (simp add: evals)

subsection \<open>Pod locator\<close>

text \<open>
  C5. When the client of the context is registered and the listing call succeeds,
  \<open>GetPodNameByLabel\<close> fails with
  \<open>no pods found with label <selector> in namespace <namespace>\<close> on the empty list
  and returns the name of the first item of the list otherwise.
\<close>

theorem GetPodNameByLabel_first:
  assumes "clientMap st kubectx = Some client"
    and "podsList k client namespace labelSelector (world st) = (Inr items, w)"
  shows "fst (GetPodNameByLabel k kubectx namespace labelSelector st) =
           (case items of
              [] \<Rightarrow> ([], Some (''no pods found with label '' @ labelSelector @
                               '' in namespace '' @ namespace))
            | p # ps \<Rightarrow> (Name p, None))"
  using assms by (simp add: GetPodNameByLabel_def GetClient_def Let_def split: list.splits)

theorem GetPodNameByLabel_first_witness:
  "clientMap (snd (InitClients kDemo [''ctx1''] st0)) ''ctx1'' = Some (Clientset 0 (RestConfig 0)) \<and>
   podsList kDemo (Clientset 0 (RestConfig 0)) ''ns1'' ''app=proxy'' (world (snd (InitClients kDemo [''ctx1''] st0)))
     = (Inr [Pod ''proxy-0'', Pod ''proxy-1''], 3) \<and>
   fst (GetPodNameByLabel kDemo ''ctx1'' ''ns1'' ''app=proxy'' (snd (InitClients kDemo [''ctx1''] st0)))
     = (''proxy-0'', None) \<and>
   podsList kDemo (Clientset 0 (RestConfig 0)) ''ns1'' ''app=none'' (world (snd (InitClients kDemo [''ctx1''] st0)))
     = (Inr [], 3) \<and>
   fst (GetPodNameByLabel kDemo ''ctx1'' ''ns1'' ''app=none'' (snd (InitClients kDemo [''ctx1''] st0)))
     = ([], Some ''no pods found with label app=none in namespace ns1'')"
  using GetPodNameByLabel_first[of "snd (InitClients kDemo [''ctx1''] st0)" "''ctx1''" "Clientset 0 (RestConfig 0)"
          kDemo "''ns1''" "''app=proxy''" "[Pod ''proxy-0'', Pod ''proxy-1'']" 3]
        GetPodNameByLabel_first[of "snd (InitClients kDemo [''ctx1''] st0)" "''ctx1''" "Clientset 0 (RestConfig 0)"
          kDemo "''ns1''" "''app=none''" "[]" 3]
  by (simp add: evals)


subsection \<open>InitClients: a failing context aborts the batch\<close>

lemma InitClients_keeps:
  "clientMap st x \<noteq> None \<Longrightarrow> clientMap (snd (InitClients k xs st)) x \<noteq> None"
proof (induction xs arbitrary: st)
  case Nil
  then show ?case by simp
next
  case (Cons c xs)
  then show ?case
    by (auto simp: getKubeRestConfig_def NewForConfig_def split: prod.splits sum.splits option.splits)
qed

lemma InitClients_built:
  "builtWorld k pre (world st) = Some w1 \<Longrightarrow>
   \<exists>st1. InitClients k (pre @ rest) st = InitClients k rest st1 \<and> world st1 = w1 \<and>
         trace st1 = trace st @ map (LoadConfig (kubeConfig k)) pre \<and> chans st1 = chans st \<and>
         (\<forall>x\<in>set pre. clientMap st1 x \<noteq> None) \<and>
         (\<forall>x. x \<notin> set pre \<longrightarrow> clientMap st1 x = clientMap st x)"
proof (induction pre arbitrary: st)
  case Nil
  then show ?case by (intro exI[of _ st]) simp
next
  case (Cons ctx pre)
  from Cons.prems obtain cfg wa wb where
    a: "clientConfig k (kubeConfig k) ctx (world st) = (Inr cfg, wa)" and
    b: "newForConfig k cfg wa = (None, wb)" and
    c: "builtWorld k pre wb = Some w1"
    by (auto split: prod.splits sum.splits option.splits)
  let ?st2 = "st\<lparr>trace := trace st @ [LoadConfig (kubeConfig k) ctx], world := wb,
                 heapNext := Suc (heapNext st),
                 clientMap := (clientMap st)(ctx \<mapsto> Clientset (heapNext st) cfg)\<rparr>"
  have step: "InitClients k ((ctx # pre) @ rest) st = InitClients k (pre @ rest) ?st2"
    using a b by (simp add: getKubeRestConfig_def NewForConfig_def)
  have "builtWorld k pre (world ?st2) = Some w1" using c by simp
  from Cons.IH[OF this] obtain st1 where
    i: "InitClients k (pre @ rest) ?st2 = InitClients k rest st1" "world st1 = w1"
       "trace st1 = trace ?st2 @ map (LoadConfig (kubeConfig k)) pre" "chans st1 = chans ?st2"
       "\<forall>x\<in>set pre. clientMap st1 x \<noteq> None"
       "\<forall>x. x \<notin> set pre \<longrightarrow> clientMap st1 x = clientMap ?st2 x"
    by blast
  have reg: "\<forall>x\<in>set (ctx # pre). clientMap st1 x \<noteq> None"
  proof
    fix x assume "x \<in> set (ctx # pre)"
    then show "clientMap st1 x \<noteq> None"
      using i(5,6) by (cases "x \<in> set pre") auto
  qed
  have frame: "\<forall>x. x \<notin> set (ctx # pre) \<longrightarrow> clientMap st1 x = clientMap st x"
    using i(6) by auto
  show ?case
    using step i(1,2,3,4) reg frame
    by (intro exI[of _ st1]) (simp del: InitClients.simps)
qed

text \<open>
  C6. When the clients of the contexts \<open>pre\<close> of a batch are built (for each of
  them the kubeconfig loads and the client set is made: \<open>builtWorld\<close>) and building
  the client of the next context \<open>c\<close> fails, because the kubeconfig does not load
  for \<open>c\<close> or because the client set cannot be made from it, \<open>InitClients\<close> returns
  the error \<open>failed to get client config for context <c>: <error>\<close>, in the second
  case \<open>failed to create client for context <c>: <error>\<close>, whatever contexts
  \<open>post\<close> follow in the batch. None of them is processed: the world is the one the
  failing call left, and the trace has gained the loads for \<open>pre\<close> and for \<open>c\<close> and
  nothing else. Every context of \<open>pre\<close> is registered, and the entry of every other
  context is as it was before the call.
\<close>

theorem InitClients_abort:
  "(builtWorld k pre (world st) = Some w1 \<and>
    clientConfig k (kubeConfig k) c w1 = (Inl err, w2)
    \<longrightarrow>
    (\<exists>st'. InitClients k (pre @ c # post) st =
              (Some (''failed to get client config for context '' @ c @ '': '' @ err), st') \<and>
           world st' = w2 \<and>
           trace st' = trace st @ map (LoadConfig (kubeConfig k)) (pre @ [c]) \<and>
           (\<forall>x\<in>set pre. clientMap st' x \<noteq> None) \<and>
           (\<forall>x. x \<notin> set pre \<longrightarrow> clientMap st' x = clientMap st x))) \<and>
   (builtWorld k pre (world st) = Some w1 \<and>
    clientConfig k (kubeConfig k) c w1 = (Inr restCfg, w2) \<and>
    newForConfig k restCfg w2 = (Some err, w3)
    \<longrightarrow>
    (\<exists>st'. InitClients k (pre @ c # post) st =
              (Some (''failed to create client for context '' @ c @ '': '' @ err), st') \<and>
           world st' = w3 \<and>
           trace st' = trace st @ map (LoadConfig (kubeConfig k)) (pre @ [c]) \<and>
           (\<forall>x\<in>set pre. clientMap st' x \<noteq> None) \<and>
           (\<forall>x. x \<notin> set pre \<longrightarrow> clientMap st' x = clientMap st x)))"
  (is "?load \<and> ?build")
proof -
  have 1: ?load
  proof
    assume a: "builtWorld k pre (world st) = Some w1 \<and>
      clientConfig k (kubeConfig k) c w1 = (Inl err, w2)"
    then obtain st1 where
      i: "InitClients k (pre @ c # post) st = InitClients k (c # post) st1" "world st1 = w1"
         "trace st1 = trace st @ map (LoadConfig (kubeConfig k)) pre"
         "\<forall>x\<in>set pre. clientMap st1 x \<noteq> None"
         "\<forall>x. x \<notin> set pre \<longrightarrow> clientMap st1 x = clientMap st x"
      using InitClients_built[of k pre st w1 "c # post"] by blast
    let ?st' = "st1\<lparr>world := w2, trace := trace st1 @ [LoadConfig (kubeConfig k) c]\<rparr>"
    have "InitClients k (c # post) st1 =
        (Some (''failed to get client config for context '' @ c @ '': '' @ err), ?st')"
      using a i(2) by (simp add: getKubeRestConfig_def)
    then show "\<exists>st'. InitClients k (pre @ c # post) st =
              (Some (''failed to get client config for context '' @ c @ '': '' @ err), st') \<and>
           world st' = w2 \<and>
           trace st' = trace st @ map (LoadConfig (kubeConfig k)) (pre @ [c]) \<and>
           (\<forall>x\<in>set pre. clientMap st' x \<noteq> None) \<and>
           (\<forall>x. x \<notin> set pre \<longrightarrow> clientMap st' x = clientMap st x)"
      using i by (intro exI[of _ ?st']) (simp del: InitClients.simps)
  qed
  have 2: ?build
  proof
    assume a: "builtWorld k pre (world st) = Some w1 \<and>
      clientConfig k (kubeConfig k) c w1 = (Inr restCfg, w2) \<and>
      newForConfig k restCfg w2 = (Some err, w3)"
    then obtain st1 where
      i: "InitClients k (pre @ c # post) st = InitClients k (c # post) st1" "world st1 = w1"
         "trace st1 = trace st @ map (LoadConfig (kubeConfig k)) pre"
         "\<forall>x\<in>set pre. clientMap st1 x \<noteq> None"
         "\<forall>x. x \<notin> set pre \<longrightarrow> clientMap st1 x = clientMap st x"
      using InitClients_built[of k pre st w1 "c # post"] by blast
    let ?st' = "st1\<lparr>world := w3, trace := trace st1 @ [LoadConfig (kubeConfig k) c]\<rparr>"
    have "InitClients k (c # post) st1 =
        (Some (''failed to create client for context '' @ c @ '': '' @ err), ?st')"
      using a i(2) by (simp add: getKubeRestConfig_def NewForConfig_def)
    then show "\<exists>st'. InitClients k (pre @ c # post) st =
              (Some (''failed to create client for context '' @ c @ '': '' @ err), st') \<and>
           world st' = w3 \<and>
           trace st' = trace st @ map (LoadConfig (kubeConfig k)) (pre @ [c]) \<and>
           (\<forall>x\<in>set pre. clientMap st' x \<noteq> None) \<and>
           (\<forall>x. x \<notin> set pre \<longrightarrow> clientMap st' x = clientMap st x)"
      using i by (intro exI[of _ ?st']) (simp del: InitClients.simps)
  qed
  show ?thesis by (rule conjI[OF 1 2])
qed

theorem InitClients_abort_witness:
  "builtWorld kDemo [''ctx1'', ''ctx2''] (world st0) = Some 4 \<and>
   clientConfig kDemo (kubeConfig kDemo) ''bad'' 4 = (Inl ''context not found'', 5) \<and>
   fst (InitClients kDemo ([''ctx1'', ''ctx2''] @ ''bad'' # [''ctx3'']) st0) =
     Some ''failed to get client config for context bad: context not found'' \<and>
   world (snd (InitClients kDemo ([''ctx1'', ''ctx2''] @ ''bad'' # [''ctx3'']) st0)) = 5 \<and>
   trace (snd (InitClients kDemo ([''ctx1'', ''ctx2''] @ ''bad'' # [''ctx3'']) st0)) =
     [LoadConfig ''/home/u/.kube/config'' ''ctx1'', LoadConfig ''/home/u/.kube/config'' ''ctx2'',
      LoadConfig ''/home/u/.kube/config'' ''bad''] \<and>
   clientMap (snd (InitClients kDemo ([''ctx1'', ''ctx2''] @ ''bad'' # [''ctx3'']) st0)) ''ctx1'' =
     Some (Clientset 0 (RestConfig 0)) \<and>
   clientMap (snd (InitClients kDemo ([''ctx1'', ''ctx2''] @ ''bad'' # [''ctx3'']) st0)) ''ctx2'' =
     Some (Clientset 1 (RestConfig 2)) \<and>
   clientMap (snd (InitClients kDemo ([''ctx1'', ''ctx2''] @ ''bad'' # [''ctx3'']) st0)) ''bad'' = None \<and>
   clientMap (snd (InitClients kDemo ([''ctx1'', ''ctx2''] @ ''bad'' # [''ctx3'']) st0)) ''ctx3'' = None \<and>
   builtWorld (kDemo\<lparr>newForConfig := (\<lambda>c w. (if c = RestConfig 2 then Some ''invalid configuration'' else None, Suc w))\<rparr>)
     [''ctx1''] (world st0) = Some 2 \<and>
   clientConfig kDemo (kubeConfig kDemo) ''ctx2'' 2 = (Inr (RestConfig 2), 3) \<and>
   InitClients (kDemo\<lparr>newForConfig := (\<lambda>c w. (if c = RestConfig 2 then Some ''invalid configuration'' else None, Suc w))\<rparr>)
     ([''ctx1''] @ ''ctx2'' # [''ctx3'']) st0 =
     (Some ''failed to create client for context ctx2: invalid configuration'',
      st0\<lparr>clientMap := [''ctx1'' \<mapsto> Clientset 0 (RestConfig 0)], heapNext := 1, world := 4,
          trace := [LoadConfig ''/home/u/.kube/config'' ''ctx1'',
                    LoadConfig ''/home/u/.kube/config'' ''ctx2'']\<rparr>)"
proof -
  have "builtWorld kDemo [''ctx1'', ''ctx2''] (world st0) = Some 4 \<and>
        clientConfig kDemo (kubeConfig kDemo) ''bad'' 4 = (Inl ''context not found'', 5) \<longrightarrow>
        (\<exists>st'. InitClients kDemo ([''ctx1'', ''ctx2''] @ ''bad'' # [''ctx3'']) st0 =
              (Some (''failed to get client config for context '' @ ''bad'' @ '': '' @ ''context not found''), st') \<and>
           world st' = 5 \<and>
           trace st' = trace st0 @ map (LoadConfig (kubeConfig kDemo)) ([''ctx1'', ''ctx2''] @ [''bad'']) \<and>
           (\<forall>x\<in>set [''ctx1'', ''ctx2'']. clientMap st' x \<noteq> None) \<and>
           (\<forall>x. x \<notin> set [''ctx1'', ''ctx2''] \<longrightarrow> clientMap st' x = clientMap st0 x))"
    by (rule conjunct1[OF InitClients_abort[where k = kDemo and pre = "[''ctx1'', ''ctx2'']" and st = st0
          and ?w1.0 = 4 and c = "''bad''" and err = "''context not found''" and ?w2.0 = 5
          and post = "[''ctx3'']"]])
  then show ?thesis
    by (simp add: evals)
qed

subsection \<open>Session: no tunnel, no wait\<close>

text \<open>
  C7. With no stop function collected, the code after the barrier
  (\<open>afterBarrier\<close>, in whatever state \<open>s\<close> the site attempts have left) writes one
  log line (\<open>LogNoTunnels\<close>) and returns: the result is not \<open>None\<close>, so there is no
  wait for a signal, whether or not one would ever arrive, and the trace gains
  neither a line of the summary nor the event \<open>AwaitSignal\<close>; the world and the
  channels are those of the barrier. So does \<open>run\<close> as a whole, when it reaches the
  barrier (there is a site to process) with an empty collection.
\<close>

theorem run_without_tunnels:
  "(length fs = 0 \<longrightarrow>
      afterBarrier k cfg fs s = Some (Inr (s\<lparr>trace := trace s @ [LogNoTunnels]\<rparr>))) \<and>
   (sitesToUse = (if length args = 0 then map fst (Sites cfg) else args) \<and>
    sitesToUse \<noteq> [] \<and>
    fanOut k cfg servicesToUse sitesToUse [] (emit (LogSitesToForward sitesToUse) st) =
      Inr (allActiveStopFuncs, st1) \<and>
    length allActiveStopFuncs = 0 \<longrightarrow>
      run k cfg servicesToUse args st = Some (Inr (st1\<lparr>trace := trace st1 @ [LogNoTunnels]\<rparr>)))"
proof (intro conjI impI)
  assume "length fs = 0"
  then show "afterBarrier k cfg fs s = Some (Inr (s\<lparr>trace := trace s @ [LogNoTunnels]\<rparr>))"
    by (simp add: afterBarrier_def emit_def)
next
  assume a: "sitesToUse = (if length args = 0 then map fst (Sites cfg) else args) \<and>
    sitesToUse \<noteq> [] \<and>
    fanOut k cfg servicesToUse sitesToUse [] (emit (LogSitesToForward sitesToUse) st) =
      Inr (allActiveStopFuncs, st1) \<and>
    length allActiveStopFuncs = 0"
  then have "run k cfg servicesToUse args st = afterBarrier k cfg allActiveStopFuncs st1"
    by (auto simp: run_def Let_def)
  then show "run k cfg servicesToUse args st = Some (Inr (st1\<lparr>trace := trace st1 @ [LogNoTunnels]\<rparr>))"
    using a by (simp add: afterBarrier_def emit_def)
qed

theorem run_without_tunnels_witness:
  "[''s2'', ''nosuch'', ''s1''] = (if length [''s2'', ''nosuch'', ''s1''] = 0 then map fst (Sites cfgDemo)
                                   else [''s2'', ''nosuch'', ''s1'']) \<and>
   fanOut kDemo cfgDemo [''b''] [''s2'', ''nosuch'', ''s1''] []
     (emit (LogSitesToForward [''s2'', ''nosuch'', ''s1'']) st0) = Inr ([], stBarrierDemo) \<and>
   awaitSignal kDemo (world stBarrierDemo) = None \<and>
   afterBarrier kDemo cfgDemo [] stBarrierDemo =
     Some (Inr (stBarrierDemo\<lparr>trace := trace stBarrierDemo @ [LogNoTunnels]\<rparr>)) \<and>
   run kDemo cfgDemo [''b''] [''s2'', ''nosuch'', ''s1''] st0 =
     Some (Inr (stBarrierDemo\<lparr>trace := trace stBarrierDemo @ [LogNoTunnels]\<rparr>)) \<and>
   length (trace stBarrierDemo) = 24 \<and>
   chans stBarrierDemo = [False, True]"
  using run_without_tunnels[of "[]" kDemo cfgDemo stBarrierDemo "[''s2'', ''nosuch'', ''s1'']"
          "[''s2'', ''nosuch'', ''s1'']" "[''b'']" st0 "[]" stBarrierDemo]
  by (simp add: evals siteTask_def stBarrierDemo_def)

text \<open>
  For contrast: with the tunnel of service \<open>a\<close> active, the same environment (in
  which no signal arrives) keeps the session waiting for ever.
\<close>

lemma run_with_tunnel_waits: "run kDemo cfgDemo [''a''] [''s1''] st0 = None"
  by (simp add: evals siteTask_def run_def afterBarrier_def)


subsection \<open>PortForward: the stop function\<close>

lemma PortForward_success:
  "PortForward k c ns p lp rp st = Inr ((h, None), st1) \<Longrightarrow>
     h = CloseChan (Suc (length (chans st))) \<and> chans st1 = chans st @ [False, False]"
  by (auto simp: PortForward_def getKubeRestConfig_def makeChan_def closeChan_def Let_def nth_append
           split: sum.splits prod.splits option.splits selected.splits if_splits)

text \<open>
  C2, as the code has it. The stop function that a successful \<open>PortForward\<close> returns
  is \<open>func() { close(stopChannel) }\<close> with no guard: its first call closes the stop
  channel and returns, and a second call panics with
  \<open>close of closed channel\<close>; it is not a no-op.
\<close>

theorem stop_handle_second_call_panics:
  assumes "PortForward k kubectx namespace podName localPort remotePort st = Inr ((h, None), st1)"
  shows "\<exists>ch st2. h = CloseChan ch \<and>
           callStop h st1 = Inr st2 \<and> chans st2 = (chans st1)[ch := True] \<and> chans st2 ! ch \<and>
           callStop h st2 = Inl (Panic ''close of closed channel'')"
proof -
  from PortForward_success[OF assms]
  have h: "h = CloseChan (Suc (length (chans st)))" and c: "chans st1 = chans st @ [False, False]"
    by simp_all
  let ?st2 = "st1\<lparr>chans := (chans st1)[Suc (length (chans st)) := True]\<rparr>"
  have 1: "callStop h st1 = Inr ?st2"
    using h c by (simp add: callStop_def closeChan_def nth_append)
  have 2: "callStop h ?st2 = Inl (Panic ''close of closed channel'')"
    using h c by (simp add: callStop_def closeChan_def nth_append list_update_append)
  have 3: "chans ?st2 ! Suc (length (chans st))"
    using c by (simp add: nth_append list_update_append)
  show ?thesis using h 1 2 3 by (intro exI[of _ "Suc (length (chans st))"] exI[of _ ?st2]) simp
qed

theorem stop_handle_second_call_panics_witness:
  "PortForward kDemo ''ctx1'' ''ns1'' ''proxy-0'' 100 200 stInitDemo = Inr ((CloseChan 1, None), stReadyDemo) \<and>
   (case callStop (CloseChan 1) stReadyDemo of
      Inl p \<Rightarrow> False
    | Inr st2 \<Rightarrow> chans st2 = [False, True] \<and>
                 callStop (CloseChan 1) st2 = Inl (Panic ''close of closed channel''))"
  using stop_handle_second_call_panics[of kDemo "''ctx1''" "''ns1''" "''proxy-0''" 100 200 stInitDemo "CloseChan 1" stReadyDemo]
  by (simp add: evals stInitDemo_def stReadyDemo_def callStop_def)

text \<open>
  C2 fails as stated: in the example environment the handle of a ready forward is
  called twice and the second call panics.
\<close>

theorem stop_handle_twice_counterexample:
  "PortForward kDemo ''ctx1'' ''ns1'' ''proxy-0'' 100 200 stInitDemo = Inr ((CloseChan 1, None), stReadyDemo) \<and>
   callStop (CloseChan 1) stReadyDemo = Inr (stReadyDemo\<lparr>chans := [False, True]\<rparr>) \<and>
   callStop (CloseChan 1) (stReadyDemo\<lparr>chans := [False, True]\<rparr>) = Inl (Panic ''close of closed channel'')"
  by (simp add: evals stInitDemo_def stReadyDemo_def callStop_def)

subsection \<open>PortForward: readiness or timeout\<close>

text \<open>
  C3, as the code has it. A call of \<open>PortForward\<close> whose set-up succeeds (the client
  is registered, the kubeconfig loads, the round tripper and the forwarder are
  built) waits for the first of readiness and the timer of \<open>10 * time.Second\<close>: when
  the forwarder signals readiness before ten seconds have passed (or at that very
  instant and Go picks that case) it returns the stop function of the stop channel
  and a nil error, the channel open; otherwise it closes the stop channel and
  returns a nil handle with the error
  \<open>timed out waiting for port forward to be ready\<close>. A call whose set-up fails
  returns at once a nil handle and the set-up error (the client is not registered,
  the kubeconfig does not load, the round tripper or the forwarder cannot be
  built): the forward is not started and no channel is closed; the two channels
  exist, open, only when the forwarder was refused. No call panics, and no call
  returns a handle together with an error: the handle is nil exactly when the error
  is not.
\<close>

theorem PortForward_ready_or_timeout:
  "(clientMap st kubectx = None
    \<longrightarrow>
    PortForward k kubectx namespace podName localPort remotePort st =
      Inr ((NilFunc, Some (''failed to get client: client for context '' @ kubectx @
                           '' not initialized'')), st)) \<and>
   (clientMap st kubectx = Some client \<and>
    clientConfig k (kubeConfig k) kubectx (world st) = (Inl err, w1)
    \<longrightarrow>
    PortForward k kubectx namespace podName localPort remotePort st =
      Inr ((NilFunc, Some (''failed to get config: '' @ err)),
           st\<lparr>world := w1, trace := trace st @ [LoadConfig (kubeConfig k) kubectx]\<rparr>)) \<and>
   (clientMap st kubectx = Some client \<and>
    clientConfig k (kubeConfig k) kubectx (world st) = (Inr config, w1) \<and>
    roundTripperFor k config w1 = (Some err, w2)
    \<longrightarrow>
    PortForward k kubectx namespace podName localPort remotePort st =
      Inr ((NilFunc, Some err),
           st\<lparr>world := w2, trace := trace st @ [LoadConfig (kubeConfig k) kubectx]\<rparr>)) \<and>
   (clientMap st kubectx = Some client \<and>
    clientConfig k (kubeConfig k) kubectx (world st) = (Inr config, w1) \<and>
    roundTripperFor k config w1 = (None, w2) \<and>
    newOnAddresses k config client namespace podName [''localhost'']
      [fmt_d localPort @ '':'' @ fmt_d remotePort] w2 = (Some err, w3)
    \<longrightarrow>
    PortForward k kubectx namespace podName localPort remotePort st =
      Inr ((NilFunc, Some err),
           st\<lparr>world := w3, trace := trace st @ [LoadConfig (kubeConfig k) kubectx],
              chans := chans st @ [False, False]\<rparr>)) \<and>
   (clientMap st kubectx = Some client \<and>
    clientConfig k (kubeConfig k) kubectx (world st) = (Inr config, w1) \<and>
    roundTripperFor k config w1 = (None, w2) \<and>
    newOnAddresses k config client namespace podName [''localhost'']
      [fmt_d localPort @ '':'' @ fmt_d remotePort] w2 = (None, w3) \<and>
    forwardPorts k config client namespace podName
      [fmt_d localPort @ '':'' @ fmt_d remotePort] w3 = ((readyAt, tie), w4)
    \<longrightarrow>
    PortForward k kubectx namespace podName localPort remotePort st =
      (if (\<exists>t. readyAt = Some t \<and> (t < 10000000000 \<or> t = 10000000000 \<and> tie)) then
         Inr ((CloseChan (Suc (length (chans st))), None),
              st\<lparr>world := w4,
                 trace := trace st @ [LoadConfig (kubeConfig k) kubectx,
                            ForwardPorts namespace podName [fmt_d localPort @ '':'' @ fmt_d remotePort]],
                 chans := chans st @ [False, False]\<rparr>)
       else
         Inr ((NilFunc, Some ''timed out waiting for port forward to be ready''),
              st\<lparr>world := w4,
                 trace := trace st @ [LoadConfig (kubeConfig k) kubectx,
                            ForwardPorts namespace podName [fmt_d localPort @ '':'' @ fmt_d remotePort]],
                 chans := chans st @ [False, True]\<rparr>))) \<and>
   (\<forall>p. PortForward k kubectx namespace podName localPort remotePort st \<noteq> Inl p) \<and>
   (\<forall>h e st'. PortForward k kubectx namespace podName localPort remotePort st = Inr ((h, e), st')
       \<longrightarrow> (h = NilFunc) = (e \<noteq> None))"
  (is "?noclient \<and> ?noconfig \<and> ?notripper \<and> ?noforwarder \<and> ?waits \<and> ?nopanic \<and> ?exclusive")
proof -
  have 1: ?noclient
    by (simp add: PortForward_no_client)
  have 2: ?noconfig
    using PortForward_config_fails[of st kubectx client k err w1 namespace podName localPort remotePort]
    by blast
  have 3: ?notripper
    using PortForward_roundTripper_fails[of st kubectx client k config w1 err w2 namespace podName
        localPort remotePort]
    by blast
  have 4: ?noforwarder
    using PortForward_forwarder_fails[of st kubectx client k config w1 w2 namespace podName
        localPort remotePort err w3]
    by blast
  have 5: ?waits
  proof
    assume a: "clientMap st kubectx = Some client \<and>
      clientConfig k (kubeConfig k) kubectx (world st) = (Inr config, w1) \<and>
      roundTripperFor k config w1 = (None, w2) \<and>
      newOnAddresses k config client namespace podName [''localhost'']
        [fmt_d localPort @ '':'' @ fmt_d remotePort] w2 = (None, w3) \<and>
      forwardPorts k config client namespace podName
        [fmt_d localPort @ '':'' @ fmt_d remotePort] w3 = ((readyAt, tie), w4)"
    have sel: "(selectReady readyAt tie (10 * Second) = ReadyCase) =
        (\<exists>t. readyAt = Some t \<and> (t < 10000000000 \<or> t = 10000000000 \<and> tie))"
      by (auto simp: selectReady_def Second_def split: option.splits)
    from a have "PortForward k kubectx namespace podName localPort remotePort st =
      (case selectReady readyAt tie (10 * Second) of
        ReadyCase \<Rightarrow>
          Inr ((CloseChan (Suc (length (chans st))), None),
               st\<lparr>world := w4,
                  trace := trace st @ [LoadConfig (kubeConfig k) kubectx,
                             ForwardPorts namespace podName [fmt_d localPort @ '':'' @ fmt_d remotePort]],
                  chans := chans st @ [False, False]\<rparr>)
      | TimeoutCase \<Rightarrow>
          Inr ((NilFunc, Some ''timed out waiting for port forward to be ready''),
               st\<lparr>world := w4,
                  trace := trace st @ [LoadConfig (kubeConfig k) kubectx,
                             ForwardPorts namespace podName [fmt_d localPort @ '':'' @ fmt_d remotePort]],
                  chans := chans st @ [False, True]\<rparr>))"
      using PortForward_waits[of st kubectx client k config w1 w2 namespace podName localPort
          remotePort w3 readyAt tie w4]
      by blast
    then show "PortForward k kubectx namespace podName localPort remotePort st =
      (if (\<exists>t. readyAt = Some t \<and> (t < 10000000000 \<or> t = 10000000000 \<and> tie)) then
         Inr ((CloseChan (Suc (length (chans st))), None),
              st\<lparr>world := w4,
                 trace := trace st @ [LoadConfig (kubeConfig k) kubectx,
                            ForwardPorts namespace podName [fmt_d localPort @ '':'' @ fmt_d remotePort]],
                 chans := chans st @ [False, False]\<rparr>)
       else
         Inr ((NilFunc, Some ''timed out waiting for port forward to be ready''),
              st\<lparr>world := w4,
                 trace := trace st @ [LoadConfig (kubeConfig k) kubectx,
                            ForwardPorts namespace podName [fmt_d localPort @ '':'' @ fmt_d remotePort]],
                 chans := chans st @ [False, True]\<rparr>))"
      using sel by (cases "selectReady readyAt tie (10 * Second)") simp_all
  qed
  have 6: ?nopanic
    by (simp add: PortForward_no_panic)
  have 7: ?exclusive
    using PortForward_shape[of k kubectx namespace podName localPort remotePort st] by auto
  show ?thesis
    by (rule conjI[OF 1 conjI[OF 2 conjI[OF 3 conjI[OF 4 conjI[OF 5 conjI[OF 6 7]]]]]])
qed

theorem PortForward_ready_or_timeout_witness:
  "clientMap st0 ''ctx1'' = None \<and>
   PortForward kDemo ''ctx1'' ''ns1'' ''proxy-0'' 100 200 st0 =
     Inr ((NilFunc, Some ''failed to get client: client for context ctx1 not initialized''), st0) \<and>
   clientMap stInitDemo ''ctx1'' = Some (Clientset 0 (RestConfig 0)) \<and> world stInitDemo = 2 \<and>
   chans stInitDemo = [] \<and>
   (case PortForward (kDemo\<lparr>clientConfig := (\<lambda>p c w. (Inl ''no such file'', Suc w))\<rparr>)
           ''ctx1'' ''ns1'' ''proxy-0'' 100 200 stInitDemo of
      Inl p \<Rightarrow> False
    | Inr ((h, e), st') \<Rightarrow>
        h = NilFunc \<and> e = Some ''failed to get config: no such file'' \<and> chans st' = [] \<and> world st' = 3) \<and>
   clientConfig kDemo (kubeConfig kDemo) ''ctx1'' 2 = (Inr (RestConfig 2), 3) \<and>
   (case PortForward (kDemo\<lparr>roundTripperFor := (\<lambda>c w. (Some ''tls: bad certificate'', w))\<rparr>)
           ''ctx1'' ''ns1'' ''proxy-0'' 100 200 stInitDemo of
      Inl p \<Rightarrow> False
    | Inr ((h, e), st') \<Rightarrow>
        h = NilFunc \<and> e = Some ''tls: bad certificate'' \<and> chans st' = [] \<and> world st' = 3) \<and>
   roundTripperFor kDemo (RestConfig 2) 3 = (None, 3) \<and>
   newOnAddresses kDemo (RestConfig 2) (Clientset 0 (RestConfig 0)) ''ns1'' ''proxy-0'' [''localhost'']
     [fmt_d 70000 @ '':'' @ fmt_d 200] 3 = (Some ''error parsing local port'', 3) \<and>
   (case PortForward kDemo ''ctx1'' ''ns1'' ''proxy-0'' 70000 200 stInitDemo of
      Inl p \<Rightarrow> False
    | Inr ((h, e), st') \<Rightarrow>
        h = NilFunc \<and> e = Some ''error parsing local port'' \<and> chans st' = [False, False] \<and>
        world st' = 3) \<and>
   newOnAddresses kDemo (RestConfig 2) (Clientset 0 (RestConfig 0)) ''ns1'' ''proxy-0'' [''localhost'']
     [fmt_d 100 @ '':'' @ fmt_d 200] 3 = (None, 3) \<and>
   forwardPorts kDemo (RestConfig 2) (Clientset 0 (RestConfig 0)) ''ns1'' ''proxy-0''
     [fmt_d 100 @ '':'' @ fmt_d 200] 3 = ((Some 2000000, False), 4) \<and>
   (case PortForward kDemo ''ctx1'' ''ns1'' ''proxy-0'' 100 200 stInitDemo of
      Inl p \<Rightarrow> False
    | Inr ((h, e), st') \<Rightarrow>
        h = CloseChan 1 \<and> e = None \<and> chans st' = [False, False] \<and> world st' = 4) \<and>
   newOnAddresses kDemo (RestConfig 2) (Clientset 0 (RestConfig 0)) ''ns1'' ''proxy-0'' [''localhost'']
     [fmt_d 101 @ '':'' @ fmt_d 201] 3 = (None, 3) \<and>
   forwardPorts kDemo (RestConfig 2) (Clientset 0 (RestConfig 0)) ''ns1'' ''proxy-0''
     [fmt_d 101 @ '':'' @ fmt_d 201] 3 = ((None, False), 4) \<and>
   (case PortForward kDemo ''ctx1'' ''ns1'' ''proxy-0'' 101 201 stInitDemo of
      Inl p \<Rightarrow> False
    | Inr ((h, e), st') \<Rightarrow>
        h = NilFunc \<and> e = Some ''timed out waiting for port forward to be ready'' \<and>
        chans st' = [False, True] \<and> world st' = 4)"
  using PortForward_ready_or_timeout[where st = stInitDemo and kubectx = "''ctx1''"
          and client = "Clientset 0 (RestConfig 0)" and k = kDemo and config = "RestConfig 2"
          and ?w1.0 = 3 and ?w2.0 = 3 and ?w3.0 = 3 and ?w4.0 = 4 and namespace = "''ns1''"
          and podName = "''proxy-0''" and localPort = 100 and remotePort = 200
          and readyAt = "Some 2000000" and tie = False and err = "''none''"]
  by (simp add: evals stInitDemo_def)

text \<open>
  C3 fails as stated for the calls that do not reach the wait: an unregistered
  context, and a local port that the forwarder refuses, each return a nil handle
  and an error that is not the timeout error, with no forward started and the stop
  channel not closed.
\<close>

theorem PortForward_setup_failure_counterexample:
  "PortForward kDemo ''ctx1'' ''ns1'' ''proxy-0'' 100 200 st0 =
     Inr ((NilFunc, Some ''failed to get client: client for context ctx1 not initialized''), st0) \<and>
   (case PortForward kDemo ''ctx1'' ''ns1'' ''proxy-0'' 70000 200 stInitDemo of
      Inl p \<Rightarrow> False
    | Inr ((h, e), st') \<Rightarrow>
        h = NilFunc \<and> e = Some ''error parsing local port'' \<and>
        chans st' = [False, False] \<and>
        trace st' = [LoadConfig ''/home/u/.kube/config'' ''ctx1'',
                     LoadConfig ''/home/u/.kube/config'' ''ctx1''])"
  by (simp add: evals stInitDemo_def)


subsection \<open>The registry under InitClients and GetClient\<close>

lemma InitClients_frame:
  "c \<notin> set xs \<Longrightarrow> clientMap (snd (InitClients k xs st)) c = clientMap st c"
proof (induction xs arbitrary: st)
  case Nil
  show ?case by simp
next
  case (Cons x xs)
  then show ?case
    by (auto simp: getKubeRestConfig_def NewForConfig_def split: prod.splits sum.splits option.splits)
qed

lemma runOps_keeps:
  "clientMap st c \<noteq> None \<Longrightarrow> clientMap (runOps k ops st) c \<noteq> None"
proof (induction ops arbitrary: st)
  case Nil
  then show ?case by simp
next
  case (Cons x ops)
  have "clientMap (applyOp k x st) c \<noteq> None"
    using Cons.prems InitClients_keeps[of st c k] by (cases x) (auto split: sum.splits)
  from Cons.IH[OF this] show ?case by simp
qed

lemma runOps_frame:
  "c \<notin> initTargets ops \<Longrightarrow> clientMap (runOps k ops st) c = clientMap st c"
proof (induction ops arbitrary: st)
  case Nil
  then show ?case by simp
next
  case (Cons x ops)
  have 1: "clientMap (applyOp k x st) c = clientMap st c"
    using Cons.prems InitClients_frame[of c _ k st] by (cases x) (auto split: sum.splits)
  have 2: "c \<notin> initTargets ops" using Cons.prems by (cases x) auto
  from Cons.IH[OF 2, of "applyOp k x st"] 1 show ?case by simp
qed

lemma InitClients_single_ok:
  "fst (InitClients k [c] st) = None \<Longrightarrow>
     \<exists>cfg. clientMap (snd (InitClients k [c] st)) c = Some (Clientset (heapNext st) cfg)"
  by (auto simp: getKubeRestConfig_def NewForConfig_def split: prod.splits sum.splits option.splits)

text \<open>
  C8, as the code has it. Over every sequence of \<open>InitClients\<close> and \<open>GetClient\<close>
  calls a registered context stays registered, and the entry of a context that no
  \<open>InitClients\<close> call of the sequence names is unchanged (\<open>GetClient\<close> changes
  nothing). But \<open>InitClients\<close> assigns \<open>clientMap[ctx]\<close> on every success: a
  successful call for a context stores the client set it has just built (at the
  next free address), also when the context was registered before.
\<close>

theorem registry_kept_or_overwritten:
  "(clientMap st c \<noteq> None \<longrightarrow> clientMap (runOps k ops st) c \<noteq> None) \<and>
   (c \<notin> initTargets ops \<longrightarrow> clientMap (runOps k ops st) c = clientMap st c) \<and>
   (fst (InitClients k [c] st) = None \<longrightarrow>
      (\<exists>cfg. clientMap (snd (InitClients k [c] st)) c = Some (Clientset (heapNext st) cfg)))"
  using runOps_keeps[of st c k ops] runOps_frame[of c ops k st] InitClients_single_ok[of k c st]
  by (simp del: InitClients.simps)

theorem registry_kept_or_overwritten_witness:
  "clientMap stInitDemo ''ctx1'' = Some (Clientset 0 (RestConfig 0)) \<and>
   ''ctx1'' \<notin> initTargets [OpGetClient ''ctx1'', OpInitClients [''ctx2'', ''bad''], OpGetClient ''ctx3''] \<and>
   clientMap (runOps kDemo [OpGetClient ''ctx1'', OpInitClients [''ctx2'', ''bad''], OpGetClient ''ctx3''] stInitDemo) ''ctx1''
     = Some (Clientset 0 (RestConfig 0)) \<and>
   fst (InitClients kDemo [''ctx1''] stInitDemo) = None \<and> heapNext stInitDemo = 1 \<and>
   clientMap (snd (InitClients kDemo [''ctx1''] stInitDemo)) ''ctx1'' = Some (Clientset 1 (RestConfig 2))"
  using registry_kept_or_overwritten[of stInitDemo "''ctx1''" kDemo
          "[OpGetClient ''ctx1'', OpInitClients [''ctx2'', ''bad''], OpGetClient ''ctx3'']"]
  by (simp add: evals stInitDemo_def)

text \<open>
  C8 fails as stated: after \<open>ctx1\<close> is registered, a \<open>GetClient\<close> and a second
  \<open>InitClients\<close> for \<open>ctx1\<close> leave another client set in its entry.
\<close>

theorem registry_entry_replaced_counterexample:
  "clientMap stInitDemo ''ctx1'' = Some (Clientset 0 (RestConfig 0)) \<and>
   clientMap (runOps kDemo [OpGetClient ''ctx1'', OpInitClients [''ctx1'']] stInitDemo) ''ctx1''
     = Some (Clientset 1 (RestConfig 2))"
  by (simp add: evals stInitDemo_def)


subsection \<open>Where the credentials are loaded from\<close>

lemma loadPaths_append: "loadPaths (xs @ ys) = loadPaths xs @ loadPaths ys"
  by (induction xs rule: loadPaths.induct) simp_all

lemma loadsWithin_emit:
  "loadsWithin S (emit e st) = (loadsWithin S st \<and> set (loadPaths [e]) \<subseteq> S)"
  by (simp add: loadsWithin_def emit_def loadPaths_append)

lemma loadsWithin_emitIf:
  "loadsWithin S (emitIf b e st) = (loadsWithin S st \<and> (b \<longrightarrow> set (loadPaths [e]) \<subseteq> S))"
  by (simp add: emitIf_def loadsWithin_emit)

lemma lw_getKubeRestConfig:
  "getKubeRestConfig k c st = (r, st') \<Longrightarrow> loadsWithin S st \<Longrightarrow> kubeConfig k \<in> S \<Longrightarrow>
     loadsWithin S st'"
  by (auto simp: getKubeRestConfig_def loadsWithin_def loadPaths_append split: prod.splits)

lemma lw_NewForConfig:
  "NewForConfig k cfg st = (r, st') \<Longrightarrow> loadsWithin S st \<Longrightarrow> loadsWithin S st'"
  by (auto simp: NewForConfig_def loadsWithin_def split: prod.splits option.splits)

lemma lw_InitClients:
  "loadsWithin S st \<Longrightarrow> kubeConfig k \<in> S \<Longrightarrow> loadsWithin S (snd (InitClients k xs st))"
proof (induction xs arbitrary: st)
  case Nil
  then show ?case by simp
next
  case (Cons c xs)
  obtain r st1 where g: "getKubeRestConfig k c st = (r, st1)" by (cases "getKubeRestConfig k c st")
  have l1: "loadsWithin S st1" using lw_getKubeRestConfig[OF g Cons.prems] .
  show ?case
  proof (cases r)
    case (Inl err)
    then show ?thesis using g l1 by simp
  next
    case (Inr restCfg)
    obtain r2 st2 where n: "NewForConfig k restCfg st1 = (r2, st2)" by (cases "NewForConfig k restCfg st1")
    have l2: "loadsWithin S st2" using lw_NewForConfig[OF n l1] .
    show ?thesis
    proof (cases r2)
      case (Inl err)
      then show ?thesis using g Inr n l2 by simp
    next
      case i2: (Inr clientset)
      have "loadsWithin S (st2\<lparr>clientMap := (clientMap st2)(c \<mapsto> clientset)\<rparr>)"
        using l2 by (simp add: loadsWithin_def)
      from Cons.IH[OF this Cons.prems(2)] show ?thesis using g Inr n i2 by simp
    qed
  qed
qed

lemma lw_GetPodNameByLabel:
  "GetPodNameByLabel k c ns sel st = (r, st') \<Longrightarrow> loadsWithin S st \<Longrightarrow> loadsWithin S st'"
  by (auto simp: GetPodNameByLabel_def Let_def loadsWithin_def loadPaths_append
           split: sum.splits prod.splits list.splits)

lemma lw_ExecToPod:
  "ExecToPod k cl cfg p ns cmd st = (r, st') \<Longrightarrow> loadsWithin S st \<Longrightarrow> loadsWithin S st'"
  by (auto simp: ExecToPod_def loadsWithin_def loadPaths_append split: prod.splits option.splits)

lemma lw_ExecPodCommand:
  "ExecPodCommand k c ns p cmd st = (r, st') \<Longrightarrow> loadsWithin S st \<Longrightarrow> kubeConfig k \<in> S \<Longrightarrow>
     loadsWithin S st'"
  by (auto simp: ExecPodCommand_def split: sum.splits prod.splits
           dest: lw_getKubeRestConfig lw_ExecToPod)

lemma lw_PortForward:
  "PortForward k c ns p lp rp st = Inr (r, st') \<Longrightarrow> loadsWithin S st \<Longrightarrow> kubeConfig k \<in> S \<Longrightarrow>
     loadsWithin S st'"
  by (auto simp: PortForward_def getKubeRestConfig_def makeChan_def closeChan_def Let_def nth_append
                 loadsWithin_def loadPaths_append
           split: sum.splits prod.splits option.splits selected.splits if_splits)

lemma lw_startTunnel:
  assumes "startTunnel k sc lp rp addr st = Inr (r, st')" and "loadsWithin S st" and "kubeConfig k \<in> S"
  shows "loadsWithin S st'"
proof -
  obtain pod e1 st1 where g: "GetPodNameByLabel k (KubeContext sc) (Namespace sc) (Porxy sc) st = ((pod, e1), st1)"
    by (metis prod.exhaust)
  have l1: "loadsWithin S st1" using lw_GetPodNameByLabel[OF g assms(2)] .
  show ?thesis
  proof (cases e1)
    case (Some err)
    then show ?thesis using assms(1) g l1 by (auto simp: startTunnel_def)
  next
    case None
    let ?st2 = "emit (LogExecInit pod) (emit (LogPodFound pod (KubeContext sc)) st1)"
    have l2: "loadsWithin S ?st2" using l1 by (simp add: loadsWithin_emit)
    obtain out1 err1 e2 st3 where x1: "ExecPodCommand k (KubeContext sc) (Namespace sc) pod
        [''/bin/sh'', ''-c'', initScript rp addr] ?st2 = ((out1, err1, e2), st3)"
      by (metis prod.exhaust)
    have l3: "loadsWithin S st3" using lw_ExecPodCommand[OF x1 l2 assms(3)] .
    show ?thesis
    proof (cases e2)
      case (Some err)
      then show ?thesis using assms(1) g None x1 l3 by (auto simp: startTunnel_def Let_def)
    next
      case n2: None
      let ?st7 = "emit (LogExecRun (''/tmp/run_socat_'' @ fmt_d rp @ ''.sh'') pod)
                   (emit LogInitExecuted
                     (emitIf (err1 \<noteq> []) (StderrInitWarning pod err1)
                       (emitIf (out1 \<noteq> []) (LogInitStdout out1) st3)))"
      have l7: "loadsWithin S ?st7" using l3 by (simp add: loadsWithin_emit loadsWithin_emitIf)
      obtain out2 err2 e3 st8 where x2: "ExecPodCommand k (KubeContext sc) (Namespace sc) pod
          [''/tmp/run_socat_'' @ fmt_d rp @ ''.sh''] ?st7 = ((out2, err2, e3), st8)"
        by (metis prod.exhaust)
      have l8: "loadsWithin S st8" using lw_ExecPodCommand[OF x2 l7 assms(3)] .
      show ?thesis
      proof (cases e3)
        case (Some err)
        then show ?thesis using assms(1) g None x1 n2 x2 l8 by (auto simp: startTunnel_def Let_def)
      next
        case n3: None
        let ?st12 = "emit (LogStartPortForward lp pod (Namespace sc) rp)
                      (emit (LogRunExecuted pod)
                        (emitIf (err2 \<noteq> []) (StderrRunWarning (''/tmp/run_socat_'' @ fmt_d rp @ ''.sh'') pod err2)
                          (emitIf (out2 \<noteq> []) (LogRunStdout out2) st8)))"
        have l12: "loadsWithin S ?st12" using l8 by (simp add: loadsWithin_emit loadsWithin_emitIf)
        obtain h e4 st13 where pf: "PortForward k (KubeContext sc) (Namespace sc) pod lp rp ?st12 = Inr ((h, e4), st13)"
          using PortForward_shape[of k "KubeContext sc" "Namespace sc" pod lp rp ?st12] by blast
        have l13: "loadsWithin S st13" using lw_PortForward[OF pf l12 assms(3)] .
        have "st' = st13"
          using assms(1) g None x1 n2 x2 n3 pf by (cases e4) (auto simp: startTunnel_def Let_def)
        then show ?thesis using l13 by simp
      qed
    qed
  qed
qed

lemma lw_forwardService:
  "forwardService k sc site s st = Inr (r, st') \<Longrightarrow> loadsWithin S st \<Longrightarrow> kubeConfig k \<in> S \<Longrightarrow>
     loadsWithin S st'"
  by (auto simp: forwardService_def Let_def loadsWithin_emit
           split: option.splits sum.splits prod.splits
           dest!: lw_startTunnel[where S = S])

lemma lw_forwardLoop:
  "forwardLoop k sc site svcs errs succ st = Inr (r, st') \<Longrightarrow> loadsWithin S st \<Longrightarrow>
     kubeConfig k \<in> S \<Longrightarrow> loadsWithin S st'"
proof (induction svcs arbitrary: errs succ st)
  case Nil
  then show ?case by simp
next
  case (Cons s svcs)
  obtain x st1 where f: "forwardService k sc site s st = Inr (x, st1)"
    using forwardService_shape[of k sc site s st] by blast
  have l1: "loadsWithin S st1" using lw_forwardService[OF f Cons.prems(2,3)] .
  show ?case
  proof (cases x)
    case (Inl e)
    then show ?thesis using Cons.prems(1) f Cons.IH[of "errs @ [e]" succ st1] l1 Cons.prems(3) by simp
  next
    case (Inr h)
    then show ?thesis using Cons.prems(1) f Cons.IH[of errs "succ @ [h]" st1] l1 Cons.prems(3) by simp
  qed
qed

lemma loadPaths_StderrFailure: "loadPaths (map StderrFailure es) = []"
  by (induction es) simp_all

lemma lw_Forward:
  assumes "Forward k cfg site services st = Inr (r, st')" and "loadsWithin S st" and "kubeConfig k \<in> S"
  shows "loadsWithin S st'"
proof (cases "map_of (Sites cfg) site")
  case None
  then show ?thesis using assms by (auto simp: Forward_def)
next
  case (Some sc)
  show ?thesis
  proof (cases "KubeContext sc = []")
    case True
    then show ?thesis using assms Some by (auto simp: Forward_def)
  next
    case False
    obtain e st1 where i: "InitClients k [KubeContext sc] st = (e, st1)"
      by (cases "InitClients k [KubeContext sc] st")
    have l1: "loadsWithin S st1"
      using lw_InitClients[OF assms(2,3), of "[KubeContext sc]"] i by (simp del: InitClients.simps)
    show ?thesis
    proof (cases e)
      case (Some err)
      then show ?thesis using assms(1) \<open>map_of (Sites cfg) site = Some sc\<close> False i l1
        by (auto simp: Forward_def simp del: InitClients.simps)
    next
      case None
      obtain errs succ st2 where lp: "forwardLoop k sc site services [] [] st1 = Inr ((errs, succ), st2)"
        using forwardLoop_attempts[of k sc site services "[]" "[]" st1] by blast
      have l2: "loadsWithin S st2" using lw_forwardLoop[OF lp l1 assms(3)] .
      then have "loadsWithin S (st2\<lparr>trace := trace st2 @ map StderrFailure errs\<rparr>)"
        by (simp add: loadsWithin_def loadPaths_append loadPaths_StderrFailure)
      then show ?thesis using assms(1) \<open>map_of (Sites cfg) site = Some sc\<close> False i None lp l2
        by (auto simp: Forward_def simp del: InitClients.simps split: if_splits)
    qed
  qed
qed

lemma forwardLoop_no_panic: "forwardLoop k sc site svcs errs succ st \<noteq> Inl p"
  using forwardLoop_attempts[of k sc site svcs errs succ st] by auto

lemma Forward_no_panic: "Forward k cfg site services st \<noteq> Inl p"
  by (auto simp: Forward_def forwardLoop_no_panic simp del: InitClients.simps
           split: option.splits if_splits prod.splits sum.splits)

text \<open>
  C9, as the code has it. Every load of cluster credentials made by \<open>InitClients\<close>,
  \<open>ExecPodCommand\<close>, \<open>PortForward\<close> and \<open>Forward\<close> reads the file
  \<open>filepath.Join(os.Getenv("HOME"), ".kube", "config")\<close>: the loads in the trace
  after the call are those that were there before and loads of that path. The path
  depends on the variable \<open>HOME\<close> only; no argument of a call and no other variable
  of the environment enters it.
\<close>

theorem credentials_path_fixed:
  "let path = filepath_Join [osGetenv k ''HOME'', ''.kube'', ''config''];
       S = insert path (set (loadPaths (trace st)))
   in loadsWithin S (snd (InitClients k contexts st)) \<and>
      loadsWithin S (snd (ExecPodCommand k kubectx namespace podName command st)) \<and>
      (case PortForward k kubectx namespace podName localPort remotePort st of
         Inl p \<Rightarrow> False
       | Inr (r, st') \<Rightarrow> loadsWithin S st') \<and>
      (case Forward k cfg site services st of
         Inl p \<Rightarrow> False
       | Inr (r, st') \<Rightarrow> loadsWithin S st')"
proof -
  define S where "S = insert (kubeConfig k) (set (loadPaths (trace st)))"
  have s0: "loadsWithin S st" and kc: "kubeConfig k \<in> S"
    by (auto simp: S_def loadsWithin_def)
  have 1: "loadsWithin S (snd (InitClients k contexts st))"
    using lw_InitClients[OF s0 kc] .
  have 2: "loadsWithin S (snd (ExecPodCommand k kubectx namespace podName command st))"
    using lw_ExecPodCommand[OF _ s0 kc, of kubectx namespace podName command]
    by (cases "ExecPodCommand k kubectx namespace podName command st") simp
  obtain h e st1 where pf: "PortForward k kubectx namespace podName localPort remotePort st = Inr ((h, e), st1)"
    using PortForward_shape[of k kubectx namespace podName localPort remotePort st] by blast
  have 3: "loadsWithin S st1" using lw_PortForward[OF pf s0 kc] .
  have "\<exists>r st2. Forward k cfg site services st = Inr (r, st2)"
    using Forward_no_panic[of k cfg site services st]
    by (cases "Forward k cfg site services st") auto
  then obtain r st2 where fw: "Forward k cfg site services st = Inr (r, st2)" by blast
  have 4: "loadsWithin S st2" using lw_Forward[OF fw s0 kc] .
  show ?thesis
    using 1 2 3 4 pf fw unfolding Let_def S_def kubeConfig_def by (simp del: InitClients.simps)
qed

theorem credentials_path_fixed_witness:
  "filepath_Join [osGetenv kDemo ''HOME'', ''.kube'', ''config''] = ''/home/u/.kube/config'' \<and>
   loadPaths (trace st0) = [] \<and>
   loadPaths (trace (snd (InitClients kDemo [''ctx1'', ''ctx2''] st0))) =
     [''/home/u/.kube/config'', ''/home/u/.kube/config''] \<and>
   loadPaths (trace (snd (ExecPodCommand kDemo ''ctx1'' ''ns1'' ''proxy-0'' [''true''] stInitDemo))) =
     [''/home/u/.kube/config'', ''/home/u/.kube/config''] \<and>
   (case PortForward kDemo ''ctx1'' ''ns1'' ''proxy-0'' 100 200 stInitDemo of
      Inl p \<Rightarrow> False
    | Inr (r, st') \<Rightarrow> loadPaths (trace st') = [''/home/u/.kube/config'', ''/home/u/.kube/config'']) \<and>
   (case Forward kDemo cfgDemo ''s1'' [''a''] st0 of
      Inl p \<Rightarrow> False
    | Inr (r, st') \<Rightarrow> loadPaths (trace st') =
        [''/home/u/.kube/config'', ''/home/u/.kube/config'', ''/home/u/.kube/config'',
         ''/home/u/.kube/config''])"
  using credentials_path_fixed[of kDemo st0 "[''ctx1'', ''ctx2'']" "''ctx1''" "''ns1''" "''proxy-0''"
          "[''true'']" 100 200 cfgDemo "''s1''" "[''a'']"]
  by (simp add: evals stInitDemo_def)

text \<open>
  C9 fails as stated: in an environment that sets \<open>KUBECONFIG\<close> to another file the
  program still loads \<open>$HOME/.kube/config\<close>, and no call takes a path.
\<close>

theorem credentials_path_override_counterexample:
  "osGetenv kDemo ''KUBECONFIG'' = ''/tmp/alt'' \<and>
   kubeConfig kDemo = ''/home/u/.kube/config'' \<and>
   loadPaths (trace (snd (InitClients kDemo [''ctx1''] st0))) = [''/home/u/.kube/config''] \<and>
   (case Forward kDemo cfgDemo ''s1'' [''a''] st0 of
      Inl p \<Rightarrow> False
    | Inr (r, st') \<Rightarrow> ''/tmp/alt'' \<notin> set (loadPaths (trace st')) \<and>
        set (loadPaths (trace st')) = {''/home/u/.kube/config''})"
  by (simp add: evals)

end
